theory Spec2Isabelle
  imports Main "HOL-Library.AList" "HOL-Library.Multiset"
begin

section \<open>JavaScript values\<close>

text \<open>
  The values that flow through \<^verbatim>\<open>dist/js-data-mongodb.js\<close>. Numbers are restricted
  to integers. A plain object is the list of its own enumerable properties in enumeration
  order, with distinct keys; \<open>AList.update\<close> is property assignment (an existing key keeps
  its place, a new key goes last) and \<open>AList.delete\<close> is the \<^verbatim>\<open>delete\<close> operator.
  The key \<^verbatim>\<open>__proto__\<close>, which an assignment and \<^verbatim>\<open>plainCopy\<close> take for the
  prototype link and not for a property, is not used as a key of these lists.
  \<open>JObjectID h\<close> is a \<^verbatim>\<open>bson.ObjectID\<close> whose hexadecimal form is \<open>h\<close>.
\<close>

datatype jsval =
    JUndefined
  | JNull
  | JBool bool
  | JNum int
  | JStr string
  | JObjectID string
  | JArr "jsval list"
  | JObj "(string \<times> jsval) list"

type_synonym obj = "(string \<times> jsval) list"

text \<open>
  \<open>Error m\<close> is \<^verbatim>\<open>new Error(m)\<close> thrown by the adapter itself, \<open>TypeError\<close> a run-time
  type error of the language (the file is in strict mode), \<open>Rejected v\<close> a failure handed
  over by the driver, the connection or a lifecycle hook. \<open>OutOfModel\<close> is not an error of
  the program: it marks the inputs on which the JavaScript leaves the fragment of the
  language modelled here (a named property written on an array or on an ObjectID, an array
  used as a key/value container, string-to-number parsing, a member inherited from
  \<^verbatim>\<open>Object.prototype\<close> used as a value).
\<close>

datatype err = Error string | TypeError | Rejected jsval | OutOfModel

fun truthy :: "jsval \<Rightarrow> bool" where
  "truthy JUndefined = False"
| "truthy JNull = False"
| "truthy (JBool b) = b"
| "truthy (JNum n) = (n \<noteq> 0)"
| "truthy (JStr s) = (s \<noteq> [])"
| "truthy _ = True"

text \<open>\<^verbatim>\<open>a || b\<close>\<close>

definition js_or :: "jsval \<Rightarrow> jsval \<Rightarrow> jsval" where
  "js_or a b = (if truthy a then a else b)"

text \<open>\<^verbatim>\<open>o[k]\<close> on a plain object: a missing property reads as \<^verbatim>\<open>undefined\<close>.\<close>

definition getProp :: "obj \<Rightarrow> string \<Rightarrow> jsval" where
  "getProp ob k = (case map_of ob k of None \<Rightarrow> JUndefined | Some v \<Rightarrow> v)"

text \<open>
  \<^verbatim>\<open>o[k]\<close> with a key chosen by the caller sees, besides the own properties, the
  members that a plain object inherits from \<^verbatim>\<open>Object.prototype\<close>: what is read
  under such a name, when the object has no own property of that name, is a function (the
  prototype itself under \<^verbatim>\<open>__proto__\<close>), which the values above do not represent.
\<close>

definition objectPrototypeMembers :: "string list" where
  "objectPrototypeMembers =
     [''constructor'', ''toString'', ''toLocaleString'', ''valueOf'', ''hasOwnProperty'',
      ''isPrototypeOf'', ''propertyIsEnumerable'', ''__proto__'', ''__defineGetter__'',
      ''__defineSetter__'', ''__lookupGetter__'', ''__lookupSetter__'']"

definition readProp :: "obj \<Rightarrow> string \<Rightarrow> err + jsval" where
  "readProp ob k =
     (case map_of ob k of
        Some v \<Rightarrow> Inr v
      | None \<Rightarrow> if k \<in> set objectPrototypeMembers then Inl OutOfModel else Inr JUndefined)"

text \<open>
  \<^verbatim>\<open>utils.isObject\<close> of js-data: \<^verbatim>\<open>Object.prototype.toString.call(v) === '[object Object]'\<close>,
  true of plain objects and of class instances such as an ObjectID, false of arrays,
  \<^verbatim>\<open>null\<close> and primitives.
\<close>

fun isObject :: "jsval \<Rightarrow> bool" where
  "isObject (JObj _) = True"
| "isObject (JObjectID _) = True"
| "isObject _ = False"

fun isString :: "jsval \<Rightarrow> bool" where
  "isString (JStr _) = True"
| "isString _ = False"

text \<open>
  \<^verbatim>\<open>base[k] = v\<close> in strict mode, as a new value of \<open>base\<close>: assignment on a plain object,
  a TypeError on a primitive, \<^verbatim>\<open>null\<close> or \<^verbatim>\<open>undefined\<close>.
\<close>

fun setProp :: "jsval \<Rightarrow> string \<Rightarrow> jsval \<Rightarrow> err + jsval" where
  "setProp (JObj ob) k v = Inr (JObj (AList.update k v ob))"
| "setProp (JArr xs) k v = Inl OutOfModel"
| "setProp (JObjectID h) k v = Inl OutOfModel"
| "setProp _ k v = Inl TypeError"

text \<open>
  \<^verbatim>\<open>utils.forOwn(o, fn)\<close> of js-data calls \<open>fn\<close> on every key of \<^verbatim>\<open>Object.keys(o)\<close>
  in order; an exception thrown by \<open>fn\<close> ends the loop.
\<close>

fun foldE :: "('a \<Rightarrow> 's \<Rightarrow> err + 's) \<Rightarrow> 'a list \<Rightarrow> 's \<Rightarrow> err + 's" where
  "foldE f [] s = Inr s"
| "foldE f (x # xs) s = (case f x s of Inl e \<Rightarrow> Inl e | Inr s' \<Rightarrow> foldE f xs s')"

text \<open>
  The (key, value) pairs \<^verbatim>\<open>forOwn\<close> visits on a value. \<^verbatim>\<open>Object.keys\<close> throws on
  \<^verbatim>\<open>null\<close> and \<^verbatim>\<open>undefined\<close> and has no key on a number or a boolean. On a string the
  keys are the character indices, on an ObjectID the fields of the bson class; the loops
  below compare keys with operator names only, and none of these keys is one, so such a
  value counts as having no entry. A non-empty array, whose elements would be visited
  under their indices, is outside the model.
\<close>

fun ownEntries :: "jsval \<Rightarrow> err + obj" where
  "ownEntries (JObj ob) = Inr ob"
| "ownEntries JUndefined = Inl TypeError"
| "ownEntries JNull = Inl TypeError"
| "ownEntries (JArr (x # xs)) = Inl OutOfModel"
| "ownEntries _ = Inr []"

section \<open>getQuery\<close>

text \<open>
  Lines 290--301: one step of the loop over the top-level keys. \<open>reserved\<close> is
  \<^verbatim>\<open>Adapter.reserved\<close> of js-data-adapter, which is not part of this repository: it is a
  parameter.
\<close>

definition foldKeyword :: "string list \<Rightarrow> string \<Rightarrow> obj \<Rightarrow> err + obj" where
  "foldKeyword reserved keyword query =
     (let config = getProp query keyword in
      if keyword \<notin> set reserved then
        (case setProp (getProp query ''where'') keyword
                (if isObject config then config else JObj [(''=='', config)]) of
           Inl e \<Rightarrow> Inl e
         | Inr w \<Rightarrow> Inr (AList.delete keyword (AList.update ''where'' w query)))
      else Inr query)"

text \<open>
  Lines 287--301: \<^verbatim>\<open>plainCopy\<close> is the identity on immutable values; a missing or falsy
  \<^verbatim>\<open>where\<close> becomes \<^verbatim>\<open>{}\<close>; the keys are those present when the loop starts.
\<close>

definition normalizeQuery :: "string list \<Rightarrow> obj \<Rightarrow> err + obj" where
  "normalizeQuery reserved query0 =
     (let query = (if truthy (getProp query0 ''where'') then query0
                   else AList.update ''where'' (JObj []) query0)
      in foldE (foldKeyword reserved) (map fst query) query)"

text \<open>
  \<^verbatim>\<open>mongoQuery[field] = mongoQuery[field] || {}; mongoQuery[field][k] = v\<close>. The native
  filter starts as the literal \<^verbatim>\<open>{}\<close>, so the read of \<^verbatim>\<open>mongoQuery[field]\<close> goes
  through the prototype chain: for a field named like a member of \<^verbatim>\<open>Object.prototype\<close>
  that has no entry yet, the inherited function is truthy, is stored under the field and
  receives the key \<open>k\<close>; no sub-document is built.
\<close>

definition setSub :: "string \<Rightarrow> string \<Rightarrow> jsval \<Rightarrow> obj \<Rightarrow> err + obj" where
  "setSub field k v mongoQuery =
     (case readProp mongoQuery field of
        Inl e \<Rightarrow> Inl e
      | Inr cur \<Rightarrow>
          (case setProp (js_or cur (JObj [])) k v of
             Inl e \<Rightarrow> Inl e
           | Inr sub \<Rightarrow> Inr (AList.update field sub mongoQuery)))"

text \<open>
  \<^verbatim>\<open>mongoQuery.$or = mongoQuery.$or || []; mongoQuery.$or.push(clause)\<close>: a truthy
  \<^verbatim>\<open>$or\<close> that is not an array has no \<^verbatim>\<open>push\<close> method.
\<close>

definition pushOr :: "jsval \<Rightarrow> obj \<Rightarrow> err + obj" where
  "pushOr clause mongoQuery =
     (case js_or (getProp mongoQuery ''$or'') (JArr []) of
        JArr cs \<Rightarrow> Inr (AList.update ''$or'' (JArr (cs @ [clause])) mongoQuery)
      | _ \<Rightarrow> Inl TypeError)"

text \<open>Lines 312--391: the operator chain, in the order of the source.\<close>

definition applyOp :: "string \<Rightarrow> string \<times> jsval \<Rightarrow> obj \<Rightarrow> err + obj" where
  "applyOp field ov mongoQuery =
     (let op = fst ov; v = snd ov in
      if op = ''=='' \<or> op = ''==='' \<or> op = ''contains'' then
        Inr (AList.update field v mongoQuery)
      else if op = ''!='' \<or> op = ''!=='' \<or> op = ''notContains'' then
        setSub field ''$ne'' v mongoQuery
      else if op = ''>'' then setSub field ''$gt'' v mongoQuery
      else if op = ''>='' then setSub field ''$gte'' v mongoQuery
      else if op = ''<'' then setSub field ''$lt'' v mongoQuery
      else if op = ''<='' then setSub field ''$lte'' v mongoQuery
      else if op = ''in'' then setSub field ''$in'' v mongoQuery
      else if op = ''notIn'' then setSub field ''$nin'' v mongoQuery
      else if op = ''|=='' \<or> op = ''|==='' \<or> op = ''|contains'' then
        pushOr (JObj [(field, v)]) mongoQuery
      else if op = ''|!='' \<or> op = ''|!=='' \<or> op = ''|notContains'' then
        pushOr (JObj [(field, JObj [(''$ne'', v)])]) mongoQuery
      else if op = ''|>'' then pushOr (JObj [(field, JObj [(''$gt'', v)])]) mongoQuery
      else if op = ''|>='' then pushOr (JObj [(field, JObj [(''$gte'', v)])]) mongoQuery
      else if op = ''|<'' then pushOr (JObj [(field, JObj [(''$lt'', v)])]) mongoQuery
      else if op = ''|<='' then pushOr (JObj [(field, JObj [(''$lte'', v)])]) mongoQuery
      else if op = ''|in'' then pushOr (JObj [(field, JObj [(''$in'', v)])]) mongoQuery
      else if op = ''|notIn'' then pushOr (JObj [(field, JObj [(''$nin'', v)])]) mongoQuery
      else Inr mongoQuery)"

text \<open>
  Lines 306--392: one field of \<^verbatim>\<open>where\<close>. The source replaces a criteria that is not
  an object by \<^verbatim>\<open>{'==': criteria}\<close> in \<^verbatim>\<open>query.where\<close>, but the inner loop runs over
  the variable \<^verbatim>\<open>criteria\<close>, which still holds the old value.
\<close>

definition translateField :: "string \<times> jsval \<Rightarrow> obj \<Rightarrow> err + obj" where
  "translateField fc mongoQuery =
     (case ownEntries (snd fc) of
        Inl e \<Rightarrow> Inl e
      | Inr ops \<Rightarrow> foldE (applyOp (fst fc)) ops mongoQuery)"

text \<open>
  Lines 303--395, on the value of \<^verbatim>\<open>query.where\<close>. On a non-empty string the
  first step of the loop assigns to a character index of the string, a TypeError in strict
  mode.
\<close>

definition translateFilter :: "jsval \<Rightarrow> err + obj" where
  "translateFilter w =
     (case (case w of JStr (c # cs) \<Rightarrow> Inl TypeError | _ \<Rightarrow> ownEntries w) of
        Inl e \<Rightarrow> Inl e
      | Inr entries \<Rightarrow> foldE translateField entries [])"

definition getQuery :: "string list \<Rightarrow> obj \<Rightarrow> err + obj" where
  "getQuery reserved query =
     (case normalizeQuery reserved query of
        Inl e \<Rightarrow> Inl e
      | Inr q \<Rightarrow> translateFilter (getProp q ''where''))"

section \<open>getQueryOptions\<close>

text \<open>
  Lines 420--427 on a truthy \<^verbatim>\<open>orderBy\<close>: a string becomes \<^verbatim>\<open>[[orderBy, 'asc']]\<close>,
  then every string element of the sequence becomes a pair. A number, a boolean or an
  object has no \<^verbatim>\<open>length\<close> and is passed on as it is; an object that has one would be
  walked like an array and is outside the model.
\<close>

definition orderPair :: "jsval \<Rightarrow> jsval" where
  "orderPair x = (if isString x then JArr [x, JStr ''asc''] else x)"

fun normalizeOrder :: "jsval \<Rightarrow> err + jsval" where
  "normalizeOrder (JStr s) = Inr (JArr (map orderPair [JArr [JStr s, JStr ''asc'']]))"
| "normalizeOrder (JArr xs) = Inr (JArr (map orderPair xs))"
| "normalizeOrder (JObj ob) =
     (if ''length'' \<in> fst ` set ob then Inl OutOfModel else Inr (JObj ob))"
| "normalizeOrder v = Inr v"

text \<open>
  Unary \<^verbatim>\<open>+\<close> on the values of the model whose result is an integer; parsing a string
  and the results that are \<^verbatim>\<open>NaN\<close> are outside the model.
\<close>

fun toNumber :: "jsval \<Rightarrow> err + jsval" where
  "toNumber (JNum n) = Inr (JNum n)"
| "toNumber (JBool b) = Inr (JNum (if b then 1 else 0))"
| "toNumber JNull = Inr (JNum 0)"
| "toNumber _ = Inl OutOfModel"

text \<open>\<^verbatim>\<open>if (x) { queryOptions[k] = f(x) }\<close>\<close>

definition setIfTruthy ::
  "string \<Rightarrow> (jsval \<Rightarrow> err + jsval) \<Rightarrow> jsval \<Rightarrow> obj \<Rightarrow> err + obj" where
  "setIfTruthy k f x queryOptions =
     (if truthy x then
        (case f x of Inl e \<Rightarrow> Inl e | Inr y \<Rightarrow> Inr (AList.update k y queryOptions))
      else Inr queryOptions)"

text \<open>Lines 412--440.\<close>

definition getQueryOptions :: "obj \<Rightarrow> err + obj" where
  "getQueryOptions query =
     (let orderBy = js_or (getProp query ''orderBy'') (getProp query ''sort'');
          skip = js_or (getProp query ''skip'') (getProp query ''offset'');
          limit = getProp query ''limit''
      in case setIfTruthy ''sort'' normalizeOrder orderBy [] of
           Inl e \<Rightarrow> Inl e
         | Inr o1 \<Rightarrow>
             (case setIfTruthy ''skip'' toNumber skip o1 of
                Inl e \<Rightarrow> Inl e
              | Inr o2 \<Rightarrow> setIfTruthy ''limit'' toNumber limit o2))"

section \<open>Vocabulary of the statements\<close>

text \<open>The operators the chain of lines 313--390 knows, case by case.\<close>

definition operatorTable :: "string list" where
  "operatorTable =
     [''=='', ''==='', ''contains'', ''!='', ''!=='', ''notContains'',
      ''>'', ''>='', ''<'', ''<='', ''in'', ''notIn'',
      ''|=='', ''|==='', ''|contains'', ''|!='', ''|!=='', ''|notContains'',
      ''|>'', ''|>='', ''|<'', ''|<='', ''|in'', ''|notIn'']"

text \<open>
  A query with one (operator, operand) pair taken away: \<open>dropPair field op query\<close> is
  \<open>query\<close> without the key \<open>op\<close> in the criteria object of \<open>field\<close>, both where
  \<open>field\<close> is a top-level key and where it is a key of \<^verbatim>\<open>where\<close>.
\<close>

definition mapValues :: "(string \<Rightarrow> jsval \<Rightarrow> jsval) \<Rightarrow> obj \<Rightarrow> obj" where
  "mapValues h ob = map (\<lambda>kv. (fst kv, h (fst kv) (snd kv))) ob"

fun dropOp :: "string \<Rightarrow> jsval \<Rightarrow> jsval" where
  "dropOp op (JObj c) = JObj (AList.delete op c)"
| "dropOp op v = v"

definition dropAt :: "string \<Rightarrow> string \<Rightarrow> string \<Rightarrow> jsval \<Rightarrow> jsval" where
  "dropAt field op k v = (if k = field then dropOp op v else v)"

fun dropInWhere :: "string \<Rightarrow> string \<Rightarrow> jsval \<Rightarrow> jsval" where
  "dropInWhere field op (JObj es) = JObj (mapValues (dropAt field op) es)"
| "dropInWhere field op w = w"

definition dropTop :: "string \<Rightarrow> string \<Rightarrow> string \<Rightarrow> jsval \<Rightarrow> jsval" where
  "dropTop field op k v =
     (if k = ''where'' then dropInWhere field op v else dropAt field op k v)"

definition dropPair :: "string \<Rightarrow> string \<Rightarrow> obj \<Rightarrow> obj" where
  "dropPair field op query = mapValues (dropTop field op) query"

text \<open>
  The three kinds of operators of the chain: the equality operators, which assign the
  operand to the field; the comparison operators, each with the native key it writes in
  the field's sub-document; the \<^verbatim>\<open>|\<close>-prefixed operators, each with the clause it
  pushes on \<^verbatim>\<open>$or\<close>.
\<close>

definition eqOp :: "string \<Rightarrow> bool" where
  "eqOp op = (op = ''=='' \<or> op = ''==='' \<or> op = ''contains'')"

definition nativeKey :: "string \<Rightarrow> string option" where
  "nativeKey op =
     (if op = ''!='' \<or> op = ''!=='' \<or> op = ''notContains'' then Some ''$ne''
      else if op = ''>'' then Some ''$gt''
      else if op = ''>='' then Some ''$gte''
      else if op = ''<'' then Some ''$lt''
      else if op = ''<='' then Some ''$lte''
      else if op = ''in'' then Some ''$in''
      else if op = ''notIn'' then Some ''$nin''
      else None)"

definition orClause :: "string \<Rightarrow> string \<times> jsval \<Rightarrow> jsval option" where
  "orClause field ov =
     (let op = fst ov; v = snd ov in
      if op = ''|=='' \<or> op = ''|==='' \<or> op = ''|contains'' then Some (JObj [(field, v)])
      else if op = ''|!='' \<or> op = ''|!=='' \<or> op = ''|notContains'' then
        Some (JObj [(field, JObj [(''$ne'', v)])])
      else if op = ''|>'' then Some (JObj [(field, JObj [(''$gt'', v)])])
      else if op = ''|>='' then Some (JObj [(field, JObj [(''$gte'', v)])])
      else if op = ''|<'' then Some (JObj [(field, JObj [(''$lt'', v)])])
      else if op = ''|<='' then Some (JObj [(field, JObj [(''$lte'', v)])])
      else if op = ''|in'' then Some (JObj [(field, JObj [(''$in'', v)])])
      else if op = ''|notIn'' then Some (JObj [(field, JObj [(''$nin'', v)])])
      else None)"

text \<open>
  The native (key, operand) pairs that the comparison operators of a criteria object
  write, in the order of the criteria, and the clauses of the \<^verbatim>\<open>$or\<close> list of a native
  filter.
\<close>

definition nativePairs :: "obj \<Rightarrow> obj" where
  "nativePairs ops =
     concat (map (\<lambda>ov. case nativeKey (fst ov) of Some k \<Rightarrow> [(k, snd ov)] | None \<Rightarrow> []) ops)"

definition orClauses :: "obj \<Rightarrow> jsval list" where
  "orClauses d = (case getProp d ''$or'' of JArr cs \<Rightarrow> cs | _ \<Rightarrow> [])"

section \<open>The translation seen per field\<close>

text \<open>
  What the loop does, told apart by destination. A native filter is read as a map from
  keys to values; \<open>orInv\<close> says that its \<^verbatim>\<open>$or\<close> entry is absent or a non-empty
  array. \<open>slotStep\<close> is the effect of one operator on the entry of its own field
  (\<open>slotRead\<close> is the read of that entry through the prototype chain),
  \<open>orStep\<close> the clauses it appends to \<^verbatim>\<open>$or\<close>; \<open>fieldSlot\<close> and \<open>fieldOrs\<close> are the
  same for the whole criteria of a field that had no entry before, and \<open>whereMap\<close> is
  the map that results from a list of fields.
\<close>

definition orv :: "jsval list \<Rightarrow> jsval option" where
  "orv cs = (if cs = [] then None else Some (JArr cs))"

definition orsOf :: "(string \<rightharpoonup> jsval) \<Rightarrow> jsval list" where
  "orsOf m = (case m ''$or'' of Some (JArr cs) \<Rightarrow> cs | _ \<Rightarrow> [])"

definition orInv :: "(string \<rightharpoonup> jsval) \<Rightarrow> bool" where
  "orInv m = (m ''$or'' = orv (orsOf m))"

definition slotRead :: "string \<Rightarrow> jsval option \<Rightarrow> err + jsval" where
  "slotRead f cur =
     (case cur of
        Some x \<Rightarrow> Inr x
      | None \<Rightarrow> if f \<in> set objectPrototypeMembers then Inl OutOfModel else Inr JUndefined)"

definition slotStep :: "string \<Rightarrow> string \<times> jsval \<Rightarrow> jsval option \<Rightarrow> err + jsval option" where
  "slotStep f ov cur =
     (if eqOp (fst ov) then Inr (Some (snd ov))
      else case nativeKey (fst ov) of
        Some k \<Rightarrow>
          (case slotRead f cur of
             Inl e \<Rightarrow> Inl e
           | Inr x \<Rightarrow>
               (case setProp (js_or x (JObj [])) k (snd ov) of
                  Inl e \<Rightarrow> Inl e
                | Inr s \<Rightarrow> Inr (Some s)))
      | None \<Rightarrow> Inr cur)"

definition orStep :: "string \<Rightarrow> string \<times> jsval \<Rightarrow> jsval list" where
  "orStep f ov =
     (if eqOp (fst ov) \<or> nativeKey (fst ov) \<noteq> None then []
      else case orClause f ov of Some c \<Rightarrow> [c] | None \<Rightarrow> [])"

definition aStep :: "string \<Rightarrow> string \<times> jsval \<Rightarrow> (string \<rightharpoonup> jsval) \<Rightarrow> err + (string \<rightharpoonup> jsval)" where
  "aStep f ov m =
     (case slotStep f ov (m f) of
        Inl e \<Rightarrow> Inl e
      | Inr s \<Rightarrow> Inr (m(f := s, ''$or'' := orv (orsOf m @ orStep f ov))))"

definition fieldSlot :: "string \<times> jsval \<Rightarrow> err + jsval option" where
  "fieldSlot fc =
     (case ownEntries (snd fc) of Inl e \<Rightarrow> Inl e | Inr ops \<Rightarrow> foldE (slotStep (fst fc)) ops None)"

definition slotVal :: "string \<times> jsval \<Rightarrow> jsval option" where
  "slotVal fc = (case fieldSlot fc of Inl e \<Rightarrow> None | Inr s \<Rightarrow> s)"

definition fieldOrs :: "string \<times> jsval \<Rightarrow> jsval list" where
  "fieldOrs fc = (case ownEntries (snd fc) of Inl e \<Rightarrow> [] | Inr ops \<Rightarrow> concat (map (orStep (fst fc)) ops))"

definition whereMap :: "obj \<Rightarrow> (string \<rightharpoonup> jsval) \<Rightarrow> (string \<rightharpoonup> jsval)" where
  "whereMap es m = (\<lambda>k. if k = ''$or'' then orv (orsOf m @ concat (map fieldOrs es))
                        else case map_of es k of Some c \<Rightarrow> slotVal (k, c) | None \<Rightarrow> m k)"

section \<open>Mappers, the driver and the other collaborators\<close>

text \<open>
  The adapter methods run against collaborators that are not part of this repository.
  They are the fields of an environment \<open>E\<close>: the adapter's own option properties
  (\<open>config\<close>), \<^verbatim>\<open>Adapter.reserved\<close>, the connection promise (\<open>client\<close>, \<open>None\<close> when
  it resolves), the lifecycle hooks (taken as functions of the hook's name and arguments
  that resolve to a value or reject), \<^verbatim>\<open>underscore\<close> of mout, \<^verbatim>\<open>ObjectID.isValid\<close>
  and the hexadecimal form of \<^verbatim>\<open>new ObjectID(s)\<close>, the driver's reads (functions of the
  store that leave it as it is) and writes (which return the new store),
  \<^verbatim>\<open>forEachRelation\<close> of js-data (\<open>inScope\<close> says for which relations of
  \<^verbatim>\<open>mapper.relationList\<close> the callback runs, \<open>childOpts\<close> is the options object it
  passes), the loaders of the base adapter and \<^verbatim>\<open>makeHasManyForeignKeys\<close>.

  A call takes the store and the log of hook and driver calls made so far, and returns
  its outcome with the new store and log. A rejected promise and a synchronous throw are
  both the outcome \<open>Inl\<close>; the log holds the calls made up to the moment the returned
  promise settles. The tasks that \<^verbatim>\<open>Promise.all\<close> awaits are run one after the other in
  the order of the relation list; the synchronous part of every task (which may throw) runs
  before any of them, as in the source.
\<close>

datatype mapper =
  Mapper (mname: string) (table: "string option") (idAttribute: string)
         (relationFields: "string list") (relationList: "reldef list")
and reldef =
  RelDef (rtype: string) (relation: string) (localField: string)
         (foreignKey: "string option") (localKeys: "string option")
         (foreignKeys: "string option") (getRelation: mapper)

text \<open>Truthiness of an optional key name of a relation descriptor.\<close>

definition present :: "string option \<Rightarrow> bool" where
  "present k = (case k of None \<Rightarrow> False | Some s \<Rightarrow> s \<noteq> [])"

datatype event =
    Hook string
  | NativeFindOne string obj jsval
  | NativeFind string obj jsval
  | NativeUpdateOne string obj obj jsval
  | NativeUpdateMany string obj obj jsval

record 's env =
  config :: obj
  adapterReserved :: "string list"
  client :: "err option"
  hook :: "string \<Rightarrow> mapper \<Rightarrow> jsval list \<Rightarrow> err + jsval"
  underscore :: "string \<Rightarrow> string"
  oidValid :: "string \<Rightarrow> bool"
  oidNew :: "string \<Rightarrow> string"
  nativeFindOne :: "'s \<Rightarrow> string \<Rightarrow> obj \<Rightarrow> jsval \<Rightarrow> err + jsval"
  nativeFind :: "'s \<Rightarrow> string \<Rightarrow> obj \<Rightarrow> jsval \<Rightarrow> err + jsval list"
  nativeUpdateOne :: "'s \<Rightarrow> string \<Rightarrow> obj \<Rightarrow> obj \<Rightarrow> jsval \<Rightarrow> err + jsval \<times> 's"
  nativeUpdateMany :: "'s \<Rightarrow> string \<Rightarrow> obj \<Rightarrow> obj \<Rightarrow> jsval \<Rightarrow> err + jsval \<times> 's"
  inScope :: "obj \<Rightarrow> reldef \<Rightarrow> bool"
  childOpts :: "obj \<Rightarrow> reldef \<Rightarrow> obj"
  loadRelation :: "string \<Rightarrow> mapper \<Rightarrow> reldef \<Rightarrow> jsval \<Rightarrow> obj \<Rightarrow> 's \<Rightarrow> err + jsval"
  makeHasManyForeignKeys :: "mapper \<Rightarrow> reldef \<Rightarrow> jsval \<Rightarrow> jsval"

type_synonym 's world = "'s \<times> event list"
type_synonym ('a, 's) io = "'s world \<Rightarrow> (err + 'a) \<times> 's world"

definition ret :: "'a \<Rightarrow> ('a, 's) io" where
  "ret x = (\<lambda>w. (Inr x, w))"

definition lift :: "err + 'a \<Rightarrow> ('a, 's) io" where
  "lift r = (\<lambda>w. (r, w))"

definition bindIO :: "('a, 's) io \<Rightarrow> ('a \<Rightarrow> ('b, 's) io) \<Rightarrow> ('b, 's) io" where
  "bindIO m f = (\<lambda>w. case m w of (Inl e, w') \<Rightarrow> (Inl e, w') | (Inr a, w') \<Rightarrow> f a w')"

definition emit :: "event \<Rightarrow> (unit, 's) io" where
  "emit ev = (\<lambda>w. (Inr (), (fst w, snd w @ [ev])))"

definition getClient :: "'s env \<Rightarrow> (unit, 's) io" where
  "getClient E = (case client E of Some e \<Rightarrow> lift (Inl e) | None \<Rightarrow> ret ())"

definition callHook :: "'s env \<Rightarrow> string \<Rightarrow> mapper \<Rightarrow> jsval list \<Rightarrow> (jsval, 's) io" where
  "callHook E name m args = bindIO (emit (Hook name)) (\<lambda>_. lift (hook E name m args))"

definition collectionOf :: "'s env \<Rightarrow> mapper \<Rightarrow> string" where
  "collectionOf E m =
     (case table m of
        Some t \<Rightarrow> if t \<noteq> [] then t else underscore E (mname m)
      | None \<Rightarrow> underscore E (mname m))"

text \<open>
  \<^verbatim>\<open>getOpt\<close> of js-data-adapter: the option of the call when it is defined, the adapter's
  own otherwise.
\<close>

definition getOpt :: "'s env \<Rightarrow> string \<Rightarrow> obj \<Rightarrow> jsval" where
  "getOpt E k opts = (if getProp opts k = JUndefined then getProp (config E) k else getProp opts k)"

text \<open>Lines 450--455.\<close>

definition toObjectID :: "'s env \<Rightarrow> mapper \<Rightarrow> jsval \<Rightarrow> jsval" where
  "toObjectID E m ident =
     (case ident of
        JStr s \<Rightarrow> if idAttribute m = ''_id'' \<and> oidValid E s then JObjectID (oidNew E s) else ident
      | _ \<Rightarrow> ident)"


section \<open>Identifier translation and the response\<close>

text \<open>
  Lines 242--256, \<^verbatim>\<open>_translateId\<close>. \<^verbatim>\<open>toString()\<close> on the values of the model: decimal
  digits for a number, the hexadecimal form for an ObjectID; joining an array is outside
  the model. On a record that is not an object the assignment of \<^verbatim>\<open>_id\<close> fails as
  \<open>setProp\<close> does.
\<close>

fun showNat :: "nat \<Rightarrow> string" where
  "showNat n = (if n < 10 then [''0123456789'' ! n]
                else showNat (n div 10) @ [''0123456789'' ! (n mod 10)])"

declare showNat.simps [simp del]

definition showInt :: "int \<Rightarrow> string" where
  "showInt i = (if i < 0 then CHR ''-'' # showNat (nat (- i)) else showNat (nat i))"

fun toStringJS :: "jsval \<Rightarrow> err + string" where
  "toStringJS (JStr s) = Inr s"
| "toStringJS (JObjectID h) = Inr h"
| "toStringJS (JNum n) = Inr (showInt n)"
| "toStringJS (JBool b) = Inr (if b then ''true'' else ''false'')"
| "toStringJS (JObj ob) =
     (if ''toString'' \<in> fst ` set ob then Inl TypeError else Inr ''[object Object]'')"
| "toStringJS (JArr xs) = Inl OutOfModel"
| "toStringJS _ = Inl TypeError"

definition translateOne :: "jsval \<Rightarrow> err + jsval" where
  "translateOne r =
     (case r of
        JObj ob \<Rightarrow>
          (let v = getProp ob ''_id'' in
           if truthy v then
             (case toStringJS v of
                Inl e \<Rightarrow> Inl e
              | Inr s \<Rightarrow> Inr (JObj (AList.update ''_id'' (JStr s) ob)))
           else Inr (JObj (AList.update ''_id'' v ob)))
      | _ \<Rightarrow> setProp r ''_id'' JUndefined)"

fun mapE :: "('a \<Rightarrow> err + 'b) \<Rightarrow> 'a list \<Rightarrow> err + 'b list" where
  "mapE f [] = Inr []"
| "mapE f (x # xs) =
     (case f x of
        Inl e \<Rightarrow> Inl e
      | Inr y \<Rightarrow> (case mapE f xs of Inl e \<Rightarrow> Inl e | Inr ys \<Rightarrow> Inr (y # ys)))"

definition translateIds :: "'s env \<Rightarrow> jsval list \<Rightarrow> obj \<Rightarrow> err + jsval list" where
  "translateIds E rs opts =
     (if truthy (getOpt E ''translateId'' opts) then mapE translateOne rs else Inr rs)"

definition translateId :: "'s env \<Rightarrow> jsval \<Rightarrow> obj \<Rightarrow> err + jsval" where
  "translateId E r opts =
     (case r of
        JArr rs \<Rightarrow>
          (case translateIds E rs opts of Inl e \<Rightarrow> Inl e | Inr rs' \<Rightarrow> Inr (JArr rs'))
      | _ \<Rightarrow> if truthy (getOpt E ''translateId'' opts) \<and> isObject r then translateOne r
             else Inr r)"

text \<open>
  \<^verbatim>\<open>utils.fillIn\<close> of js-data, \<^verbatim>\<open>Adapter.Response\<close> and \<^verbatim>\<open>respond\<close> of js-data-adapter:
  the response is \<^verbatim>\<open>{data, ...meta, op}\<close>, and \<^verbatim>\<open>respond\<close> returns it when the option
  \<^verbatim>\<open>raw\<close> is truthy and its \<^verbatim>\<open>data\<close> otherwise.
\<close>

definition fillIn :: "obj \<Rightarrow> obj \<Rightarrow> obj" where
  "fillIn dest src =
     foldl (\<lambda>d kv. if fst kv \<notin> fst ` set d \<or> getProp d (fst kv) = JUndefined
                    then AList.update (fst kv) (snd kv) d else d) dest src"

definition Response :: "jsval \<Rightarrow> obj \<Rightarrow> string \<Rightarrow> obj" where
  "Response data meta op = AList.update ''op'' (JStr op) (fillIn [(''data'', data)] meta)"

definition respond :: "'s env \<Rightarrow> obj \<Rightarrow> obj \<Rightarrow> jsval" where
  "respond E response opts =
     (if truthy (getOpt E ''raw'' opts) then JObj response else getProp response ''data'')"

text \<open>
  A value used as the target of \<^verbatim>\<open>fillIn\<close> and of a property assignment: an object
  passes, anything else fails as \<open>setProp\<close> does.
\<close>

definition asObject :: "jsval \<Rightarrow> err + obj" where
  "asObject v =
     (case v of
        JObj ob \<Rightarrow> Inr ob
      | JArr xs \<Rightarrow> Inl OutOfModel
      | JObjectID h \<Rightarrow> Inl OutOfModel
      | _ \<Rightarrow> Inl TypeError)"

definition withDefault :: "obj \<Rightarrow> obj" where
  "withDefault opts =
     (if truthy (getProp opts ''with'') then opts else AList.update ''with'' (JArr []) opts)"

definition fieldsDefault :: "obj \<Rightarrow> obj" where
  "fieldsDefault o1 =
     (if truthy (getProp o1 ''fields'') then o1 else AList.update ''fields'' (JObj []) o1)"

definition afterHook :: "'s env \<Rightarrow> string \<Rightarrow> mapper \<Rightarrow> jsval list \<Rightarrow> jsval \<Rightarrow> (jsval, 's) io" where
  "afterHook E name m args response =
     bindIO (callHook E name m (args @ [response]))
       (\<lambda>r. ret (if r = JUndefined then response else r))"


section \<open>findAll\<close>

text \<open>
  Lines 586--596, the synchronous part of findAll: the options with \<^verbatim>\<open>with\<close>
  defaulted, the driver options and the native filter.
\<close>

definition findAllPrep :: "'s env \<Rightarrow> obj \<Rightarrow> obj \<Rightarrow> err + obj \<times> obj \<times> obj" where
  "findAllPrep E query opts =
     (let opts1 = withDefault opts in
      case getQueryOptions query of
        Inl e \<Rightarrow> Inl e
      | Inr qo \<Rightarrow>
          (case asObject (getOpt E ''findOpts'' opts1) of
             Inl e \<Rightarrow> Inl e
           | Inr fo \<Rightarrow>
               (case getQuery (adapterReserved E) query of
                  Inl e \<Rightarrow> Inl e
                | Inr mq \<Rightarrow> Inr (opts1, fieldsDefault (fillIn fo qo), mq))))"

text \<open>
  Lines 621--651, the relation kept in \<^verbatim>\<open>localKeys\<close>. \<open>itemKeys\<close> is
  \<^verbatim>\<open>item[def.localKeys] || []\<close> as a list (the keys of a mapping container);
  \<^verbatim>\<open>unique\<close> of mout drops an element when an equal one follows, as \<open>remdups\<close> does;
  \<^verbatim>\<open>indexOf\<close> compares with \<^verbatim>\<open>===\<close>, which is never true of two distinct objects.
  Key names are taken without dots.
\<close>

definition readField :: "jsval \<Rightarrow> string \<Rightarrow> err + jsval" where
  "readField item k =
     (case item of
        JObj ob \<Rightarrow> readProp ob k
      | JUndefined \<Rightarrow> Inl TypeError
      | JNull \<Rightarrow> Inl TypeError
      | _ \<Rightarrow> Inr JUndefined)"

definition itemKeysOf :: "jsval \<Rightarrow> err + jsval list" where
  "itemKeysOf v =
     (case js_or v (JArr []) of
        JArr xs \<Rightarrow> Inr xs
      | JObj ob \<Rightarrow> Inr (map (\<lambda>kv. JStr (fst kv)) ob)
      | JStr s \<Rightarrow> Inl OutOfModel
      | JObjectID h \<Rightarrow> Inl OutOfModel
      | _ \<Rightarrow> Inr [])"

definition itemKeys :: "string \<Rightarrow> jsval \<Rightarrow> err + jsval list" where
  "itemKeys lk item = (case readField item lk of Inl e \<Rightarrow> Inl e | Inr v \<Rightarrow> itemKeysOf v)"

definition localKeysQuery :: "'s env \<Rightarrow> mapper \<Rightarrow> string \<Rightarrow> jsval list \<Rightarrow> err + obj" where
  "localKeysQuery E relatedMapper lk records =
     (case mapE (itemKeys lk) records of
        Inl e \<Rightarrow> Inl e
      | Inr kss \<Rightarrow>
          Inr [(''where'', JObj [(idAttribute relatedMapper,
                 JObj [(''in'', JArr (map (toObjectID E relatedMapper)
                                       (filter truthy (remdups (concat kss)))))])])])"

definition strictEq :: "jsval \<Rightarrow> jsval \<Rightarrow> bool" where
  "strictEq a b =
     (case a of JObj x \<Rightarrow> False | JArr x \<Rightarrow> False | JObjectID x \<Rightarrow> False | _ \<Rightarrow> a = b)"

definition referenced :: "string \<Rightarrow> jsval list \<Rightarrow> jsval \<Rightarrow> err + bool" where
  "referenced idAttr ks relatedItem =
     (case readField relatedItem idAttr of
        Inl e \<Rightarrow> Inl e
      | Inr v \<Rightarrow> Inr (list_ex (\<lambda>k. strictEq k v) ks))"

fun filterE :: "('a \<Rightarrow> err + bool) \<Rightarrow> 'a list \<Rightarrow> err + 'a list" where
  "filterE p [] = Inr []"
| "filterE p (x # xs) =
     (case p x of
        Inl e \<Rightarrow> Inl e
      | Inr b \<Rightarrow> (case filterE p xs of Inl e \<Rightarrow> Inl e
                   | Inr ys \<Rightarrow> Inr (if b then x # ys else ys)))"

definition attachOne :: "reldef \<Rightarrow> string \<Rightarrow> jsval \<Rightarrow> jsval \<Rightarrow> err + jsval" where
  "attachOne d lk relatedItems item =
     (case itemKeys lk item of
        Inl e \<Rightarrow> Inl e
      | Inr ks \<Rightarrow>
          (case relatedItems of
             JArr items \<Rightarrow>
               (case filterE (referenced (idAttribute (getRelation d)) ks) items of
                  Inl e \<Rightarrow> Inl e
                | Inr attached \<Rightarrow> setProp item (localField d) (JArr attached))
           | _ \<Rightarrow> Inl TypeError))"

text \<open>
  The chain of lines 615--656 (and 518--550 in find): which branch a relation descriptor
  takes.
\<close>

datatype branch = BLoad string | BLocalKeys string | BForeignKeys string | BNone

definition keyOf :: "string option \<Rightarrow> string" where
  "keyOf k = (case k of None \<Rightarrow> [] | Some s \<Rightarrow> s)"

definition branchOf :: "reldef \<Rightarrow> branch" where
  "branchOf d =
     (if present (foreignKey d) \<and> (rtype d = ''hasOne'' \<or> rtype d = ''hasMany'') then
        (if rtype d = ''hasMany'' then BLoad ''loadHasMany'' else BLoad ''loadHasOne'')
      else if rtype d = ''hasMany'' \<and> present (localKeys d) then BLocalKeys (keyOf (localKeys d))
      else if rtype d = ''hasMany'' \<and> present (foreignKeys d) then
        BForeignKeys (keyOf (foreignKeys d))
      else if rtype d = ''belongsTo'' then BLoad ''loadBelongsTo''
      else BNone)"

text \<open>
  The synchronous part of the callback of \<^verbatim>\<open>forEachRelation\<close> for one descriptor: the
  throw of line 653, or the synchronous part of the nested findAll.
\<close>

definition syncRel :: "'s env \<Rightarrow> obj \<Rightarrow> jsval list \<Rightarrow> reldef \<Rightarrow> unit \<Rightarrow> err + unit" where
  "syncRel E opts records d u =
     (if inScope E opts d then
        (case branchOf d of
           BLocalKeys lk \<Rightarrow>
             (case localKeysQuery E (getRelation d) lk records of
                Inl e \<Rightarrow> Inl e
              | Inr q \<Rightarrow>
                  (case findAllPrep E q (childOpts E opts d) of
                     Inl e \<Rightarrow> Inl e
                   | Inr p \<Rightarrow> Inr ()))
         | BForeignKeys fks \<Rightarrow>
             Inl (Error ''findAll eager load hasMany foreignKeys not supported!'')
         | _ \<Rightarrow> Inr ())
      else Inr ())"

text \<open>Lines 598--661 up to the creation of the tasks.\<close>

definition findAllRead ::
  "'s env \<Rightarrow> mapper \<Rightarrow> obj \<Rightarrow> obj \<Rightarrow> obj \<Rightarrow> obj \<Rightarrow> (jsval list, 's) io" where
  "findAllRead E m query opts findOpts mongoQuery =
     bindIO (getClient E) (\<lambda>_.
     bindIO (callHook E ''beforeFindAll'' m [JObj query, JObj opts]) (\<lambda>_.
     bindIO (emit (NativeFind (collectionOf E m) mongoQuery (JObj findOpts))) (\<lambda>_ w.
       case nativeFind E (fst w) (collectionOf E m) mongoQuery (JObj findOpts) of
         Inl e \<Rightarrow> (Inl e, w)
       | Inr rs \<Rightarrow>
           (case translateIds E rs opts of
              Inl e \<Rightarrow> (Inl e, w)
            | Inr rs' \<Rightarrow>
                (case foldE (syncRel E opts rs') (relationList m) () of
                   Inl e \<Rightarrow> (Inl e, w)
                 | Inr u \<Rightarrow> (Inr rs', w))))))"

text \<open>Lines 662--674.\<close>

definition findAllRespond ::
  "'s env \<Rightarrow> mapper \<Rightarrow> obj \<Rightarrow> obj \<Rightarrow> jsval list \<Rightarrow> (jsval, 's) io" where
  "findAllRespond E m query opts records =
     afterHook E ''afterFindAll'' m
       [JObj query, JObj (AList.update ''op'' (JStr ''afterFindAll'') opts)]
       (respond E (AList.update ''found'' (JNum (int (length records)))
                     (Response (JArr records) [] ''findAll'')) opts)"


text \<open>
  The asynchronous part of findAll and the tasks of the relations in scope. The nested
  findAll runs on the related mapper, which is a component of the descriptor: the
  recursion ends.
\<close>

function findAllRun ::
    "'s env \<Rightarrow> mapper \<Rightarrow> obj \<Rightarrow> obj \<Rightarrow> obj \<Rightarrow> obj \<Rightarrow> (jsval, 's) io"
  and runRels ::
    "'s env \<Rightarrow> mapper \<Rightarrow> reldef list \<Rightarrow> obj \<Rightarrow> jsval list \<Rightarrow> jsval list \<Rightarrow> (jsval list, 's) io"
where
  "findAllRun E m query opts1 findOpts mongoQuery w =
     (case findAllRead E m query (AList.update ''op'' (JStr ''beforeFindAll'') opts1)
             findOpts mongoQuery w of
        (Inl e, w1) \<Rightarrow> (Inl e, w1)
      | (Inr recs, w1) \<Rightarrow>
          (case runRels E m (relationList m)
                  (AList.update ''op'' (JStr ''beforeFindAll'') opts1) recs recs w1 of
             (Inl e, w2) \<Rightarrow> (Inl e, w2)
           | (Inr recs', w2) \<Rightarrow>
               findAllRespond E m query
                 (AList.update ''op'' (JStr ''beforeFindAll'') opts1) recs' w2))"
| "runRels E m [] opts recs0 records w = (Inr records, w)"
| "runRels E m (d # ds) opts recs0 records w =
     (if inScope E opts d then
        (case branchOf d of
           BLoad name \<Rightarrow>
             (case loadRelation E name m d (JArr records) (childOpts E opts d) (fst w) of
                Inl e \<Rightarrow> (Inl e, w)
              | Inr (JArr rs) \<Rightarrow> runRels E m ds opts recs0 rs w
              | Inr v \<Rightarrow> (Inl OutOfModel, w))
         | BLocalKeys lk \<Rightarrow>
             (case localKeysQuery E (getRelation d) lk recs0 of
                Inl e \<Rightarrow> (Inl e, w)
              | Inr q \<Rightarrow>
                  (case findAllPrep E q (childOpts E opts d) of
                     Inl e \<Rightarrow> (Inl e, w)
                   | Inr (o1, fo, mq) \<Rightarrow>
                       (case findAllRun E (getRelation d) q o1 fo mq w of
                          (Inl e, w1) \<Rightarrow> (Inl e, w1)
                        | (Inr relatedItems, w1) \<Rightarrow>
                            (case mapE (attachOne d lk relatedItems) records of
                               Inl e \<Rightarrow> (Inl e, w1)
                             | Inr rs \<Rightarrow> runRels E m ds opts recs0 rs w1))))
         | BForeignKeys fks \<Rightarrow>
             (Inl (Error ''findAll eager load hasMany foreignKeys not supported!''), w)
         | BNone \<Rightarrow> runRels E m ds opts recs0 records w)
      else runRels E m ds opts recs0 records w)"
  by pat_completeness auto
termination
proof (relation "measure (\<lambda>x. case x of
                   Inl (E, m, r) \<Rightarrow> size m
                 | Inr (E, m, ds, r) \<Rightarrow> size_list size ds)")
  fix E :: "'s env" and m :: mapper and ds :: "reldef list"
    and d :: reldef and r1 r2 :: "obj \<times> obj \<times> obj \<times> obj \<times> 's world"
    and r3 r4 :: "obj \<times> jsval list \<times> jsval list \<times> 's world"
  show "(Inr (E, m, relationList m, r3), Inl (E, m, r1))
          \<in> measure (\<lambda>x. case x of
                   Inl (E, m, r) \<Rightarrow> size m
                 | Inr (E, m, ds, r) \<Rightarrow> size_list size ds)"
    by (cases m) simp
  show "(Inl (E, getRelation d, r2), Inr (E, m, d # ds, r4))
          \<in> measure (\<lambda>x. case x of
                   Inl (E, m, r) \<Rightarrow> size m
                 | Inr (E, m, ds, r) \<Rightarrow> size_list size ds)"
    by (cases d) simp
qed simp_all

definition findAll :: "'s env \<Rightarrow> mapper \<Rightarrow> obj \<Rightarrow> obj \<Rightarrow> (jsval, 's) io" where
  "findAll E m query opts =
     (case findAllPrep E query opts of
        Inl e \<Rightarrow> lift (Inl e)
      | Inr (opts1, findOpts, mongoQuery) \<Rightarrow> findAllRun E m query opts1 findOpts mongoQuery)"


section \<open>find\<close>

text \<open>Lines 484--569.\<close>

definition findPrep :: "'s env \<Rightarrow> obj \<Rightarrow> err + obj \<times> obj" where
  "findPrep E opts =
     (let opts1 = withDefault opts in
      case asObject (getOpt E ''findOneOpts'' opts1) of
        Inl e \<Rightarrow> Inl e
      | Inr fo \<Rightarrow> Inr (opts1, fieldsDefault fo))"

definition findRelQuery :: "'s env \<Rightarrow> mapper \<Rightarrow> reldef \<Rightarrow> jsval \<Rightarrow> err + obj option" where
  "findRelQuery E m d record =
     (case branchOf d of
        BLocalKeys lk \<Rightarrow>
          (case localKeysQuery E (getRelation d) lk [record] of
             Inl e \<Rightarrow> Inl e
           | Inr q \<Rightarrow> Inr (Some q))
      | BForeignKeys fks \<Rightarrow>
          Inr (Some [(''where'',
                 JObj [(fks, JObj [(''contains'', makeHasManyForeignKeys E m d record)])])])
      | _ \<Rightarrow> Inr None)"

definition syncRelOne ::
  "'s env \<Rightarrow> mapper \<Rightarrow> obj \<Rightarrow> jsval \<Rightarrow> reldef \<Rightarrow> unit \<Rightarrow> err + unit" where
  "syncRelOne E m opts record d u =
     (if inScope E opts d then
        (case findRelQuery E m d record of
           Inl e \<Rightarrow> Inl e
         | Inr None \<Rightarrow> Inr ()
         | Inr (Some q) \<Rightarrow>
             (case findAllPrep E q (childOpts E opts d) of
                Inl e \<Rightarrow> Inl e
              | Inr p \<Rightarrow> Inr ()))
      else Inr ())"

fun runRelsOne ::
  "'s env \<Rightarrow> mapper \<Rightarrow> reldef list \<Rightarrow> obj \<Rightarrow> jsval \<Rightarrow> jsval \<Rightarrow> (jsval, 's) io" where
  "runRelsOne E m [] opts rec0 record w = (Inr record, w)"
| "runRelsOne E m (d # ds) opts rec0 record w =
     (if inScope E opts d then
        (case branchOf d of
           BLoad name \<Rightarrow>
             (case loadRelation E name m d record (childOpts E opts d) (fst w) of
                Inl e \<Rightarrow> (Inl e, w)
              | Inr r \<Rightarrow> runRelsOne E m ds opts rec0 r w)
         | BNone \<Rightarrow> runRelsOne E m ds opts rec0 record w
         | _ \<Rightarrow>
             (case findRelQuery E m d rec0 of
                Inr (Some q) \<Rightarrow>
                  (case findAll E (getRelation d) q (childOpts E opts d) w of
                     (Inl e, w1) \<Rightarrow> (Inl e, w1)
                   | (Inr relatedItems, w1) \<Rightarrow>
                       (case setProp record (localField d) relatedItems of
                          Inl e \<Rightarrow> (Inl e, w1)
                        | Inr r \<Rightarrow> runRelsOne E m ds opts rec0 r w1))
              | Inr None \<Rightarrow> runRelsOne E m ds opts rec0 record w
              | Inl e \<Rightarrow> (Inl e, w)))
      else runRelsOne E m ds opts rec0 record w)"

definition findRespond ::
  "'s env \<Rightarrow> mapper \<Rightarrow> jsval \<Rightarrow> obj \<Rightarrow> jsval \<Rightarrow> (jsval, 's) io" where
  "findRespond E m ident opts record =
     afterHook E ''afterFind'' m
       [ident, JObj (AList.update ''op'' (JStr ''afterFind'') opts)]
       (respond E (AList.update ''found'' (JNum (if truthy record then 1 else 0))
                     (Response record [] ''find'')) opts)"

definition findRun ::
  "'s env \<Rightarrow> mapper \<Rightarrow> jsval \<Rightarrow> obj \<Rightarrow> obj \<Rightarrow> (jsval, 's) io" where
  "findRun E m ident opts1 findOneOpts =
     (let opts = AList.update ''op'' (JStr ''beforeFind'') opts1;
          mongoQuery = [(idAttribute m, toObjectID E m ident)] in
      bindIO (getClient E) (\<lambda>_.
      bindIO (callHook E ''beforeFind'' m [ident, JObj opts]) (\<lambda>_.
      bindIO (emit (NativeFindOne (collectionOf E m) mongoQuery (JObj findOneOpts))) (\<lambda>_ w.
        case nativeFindOne E (fst w) (collectionOf E m) mongoQuery (JObj findOneOpts) of
          Inl e \<Rightarrow> (Inl e, w)
        | Inr found \<Rightarrow>
            if \<not> truthy found then findRespond E m ident opts JUndefined w
            else
              (case translateId E found opts of
                 Inl e \<Rightarrow> (Inl e, w)
               | Inr record \<Rightarrow>
                   (case foldE (syncRelOne E m opts record) (relationList m) () of
                      Inl e \<Rightarrow> (Inl e, w)
                    | Inr u \<Rightarrow>
                        bindIO (runRelsOne E m (relationList m) opts record record)
                          (findRespond E m ident opts) w))))))"

definition findRecord :: "'s env \<Rightarrow> mapper \<Rightarrow> jsval \<Rightarrow> obj \<Rightarrow> (jsval, 's) io" where
  "findRecord E m ident opts =
     (case findPrep E opts of
        Inl e \<Rightarrow> lift (Inl e)
      | Inr (opts1, findOneOpts) \<Rightarrow> findRun E m ident opts1 findOneOpts)"

section \<open>update, updateAll, updateMany\<close>

text \<open>
  \<^verbatim>\<open>withoutRelations\<close> (lines 48--50) is \<^verbatim>\<open>utils.omit\<close> of js-data: a copy of the own
  properties without the relation fields.
\<close>

definition plainEntries :: "jsval \<Rightarrow> err + obj" where
  "plainEntries v =
     (case v of
        JObj ob \<Rightarrow> Inr ob
      | JUndefined \<Rightarrow> Inl TypeError
      | JNull \<Rightarrow> Inl TypeError
      | JStr s \<Rightarrow> if s = [] then Inr [] else Inl OutOfModel
      | JArr xs \<Rightarrow> if xs = [] then Inr [] else Inl OutOfModel
      | JObjectID h \<Rightarrow> Inl OutOfModel
      | _ \<Rightarrow> Inr [])"

definition withoutRelations :: "mapper \<Rightarrow> jsval \<Rightarrow> err + obj" where
  "withoutRelations m props =
     (case plainEntries props of
        Inl e \<Rightarrow> Inl e
      | Inr ents \<Rightarrow> Inr (filter (\<lambda>kv. fst kv \<notin> set (relationFields m)) ents))"

definition overridden :: "jsval \<Rightarrow> jsval \<Rightarrow> jsval" where
  "overridden x r = (if r = JUndefined then x else r)"

definition cursorMeta :: "jsval \<Rightarrow> err + obj" where
  "cursorMeta cursor =
     (case setProp cursor ''connection'' JUndefined of
        Inl e \<Rightarrow> Inl e
      | Inr c \<Rightarrow> asObject c)"

text \<open>Lines 901--944.\<close>

definition update :: "'s env \<Rightarrow> mapper \<Rightarrow> jsval \<Rightarrow> jsval \<Rightarrow> obj \<Rightarrow> (jsval, 's) io" where
  "update E m ident props0 opts0 =
     (let props = js_or props0 (JObj []);
          updateOpts = getOpt E ''updateOpts'' opts0;
          opts = AList.update ''op'' (JStr ''beforeUpdate'') opts0;
          mongoQuery = [(idAttribute m, toObjectID E m ident)] in
      bindIO (findRecord E m ident [(''raw'', JBool False)]) (\<lambda>record.
        if \<not> truthy record then lift (Inl (Error ''Not Found''))
        else
          bindIO (callHook E ''beforeUpdate'' m [ident, props, JObj opts]) (\<lambda>p.
          bindIO (lift (withoutRelations m (overridden props p))) (\<lambda>setProps.
          bindIO (getClient E) (\<lambda>_.
          bindIO (emit (NativeUpdateOne (collectionOf E m) mongoQuery
                          [(''$set'', JObj setProps)] updateOpts)) (\<lambda>_ w.
            case nativeUpdateOne E (fst w) (collectionOf E m) mongoQuery
                   [(''$set'', JObj setProps)] updateOpts of
              Inl e \<Rightarrow> (Inl e, w)
            | Inr (cursor, db) \<Rightarrow>
                bindIO (findRecord E m ident [(''raw'', JBool False)]) (\<lambda>record2.
                bindIO (lift (cursorMeta cursor)) (\<lambda>meta.
                  afterHook E ''afterUpdate'' m
                    [ident, overridden props p,
                     JObj (AList.update ''op'' (JStr ''afterUpdate'') opts)]
                    (respond E (AList.update ''updated'' (JNum 1)
                                  (Response record2 meta ''update'')) opts)))
                  (db, snd w)))))))"






section \<open>A reference store and adapter for the scenarios\<close>

text \<open>
  A store in memory, used to run the adapter on concrete inputs: collections are lists of
  documents, a native filter matches a document field by field (equality, the comparison
  keys on integers, \<^verbatim>\<open>$in\<close>, \<^verbatim>\<open>$nin\<close>, \<^verbatim>\<open>$ne\<close>, one level of \<^verbatim>\<open>$or\<close>), an update
  applies \<^verbatim>\<open>$set\<close>. \<open>memEnv\<close> is an adapter with the default options and hooks over
  this store. The general theorems do not depend on it.
\<close>

type_synonym memdb = "(string \<times> jsval list) list"

definition docs :: "memdb \<Rightarrow> string \<Rightarrow> jsval list" where
  "docs db coll = (case map_of db coll of None \<Rightarrow> [] | Some ds \<Rightarrow> ds)"

definition docField :: "jsval \<Rightarrow> string \<Rightarrow> jsval" where
  "docField doc k = (case doc of JObj ob \<Rightarrow> getProp ob k | _ \<Rightarrow> JUndefined)"

definition numLess :: "jsval \<Rightarrow> jsval \<Rightarrow> bool" where
  "numLess a b = (case (a, b) of (JNum x, JNum y) \<Rightarrow> x < y | _ \<Rightarrow> False)"

definition opHolds :: "jsval \<Rightarrow> string \<times> jsval \<Rightarrow> bool" where
  "opHolds v oc =
     (let k = fst oc; x = snd oc in
      if k = ''$ne'' then v \<noteq> x
      else if k = ''$gt'' then numLess x v
      else if k = ''$gte'' then numLess x v \<or> v = x
      else if k = ''$lt'' then numLess v x
      else if k = ''$lte'' then numLess v x \<or> v = x
      else if k = ''$in'' then (case x of JArr xs \<Rightarrow> v \<in> set xs | _ \<Rightarrow> False)
      else if k = ''$nin'' then (case x of JArr xs \<Rightarrow> v \<notin> set xs | _ \<Rightarrow> False)
      else False)"

definition isOperatorDoc :: "obj \<Rightarrow> bool" where
  "isOperatorDoc cs = (cs \<noteq> [] \<and> list_all (\<lambda>kv. take 1 (fst kv) = ''$'') cs)"

definition matchCond :: "jsval \<Rightarrow> jsval \<Rightarrow> bool" where
  "matchCond v cond =
     (case cond of
        JObj cs \<Rightarrow> if isOperatorDoc cs then list_all (opHolds v) cs else v = cond
      | _ \<Rightarrow> v = cond)"

definition matchFlat :: "obj \<Rightarrow> jsval \<Rightarrow> bool" where
  "matchFlat q doc = list_all (\<lambda>kc. matchCond (docField doc (fst kc)) (snd kc)) q"

definition matchDoc :: "obj \<Rightarrow> jsval \<Rightarrow> bool" where
  "matchDoc q doc =
     list_all (\<lambda>kc.
        if fst kc = ''$or'' then
          (case snd kc of
             JArr cls \<Rightarrow> list_ex (\<lambda>cl. case cl of JObj c \<Rightarrow> matchFlat c doc | _ \<Rightarrow> False) cls
           | _ \<Rightarrow> False)
        else matchCond (docField doc (fst kc)) (snd kc)) q"

definition memFind :: "memdb \<Rightarrow> string \<Rightarrow> obj \<Rightarrow> jsval \<Rightarrow> err + jsval list" where
  "memFind db coll q opts = Inr (filter (matchDoc q) (docs db coll))"

definition memFindOne :: "memdb \<Rightarrow> string \<Rightarrow> obj \<Rightarrow> jsval \<Rightarrow> err + jsval" where
  "memFindOne db coll q opts =
     (case filter (matchDoc q) (docs db coll) of [] \<Rightarrow> Inr JNull | doc # ds \<Rightarrow> Inr doc)"

definition applySet :: "obj \<Rightarrow> jsval \<Rightarrow> jsval" where
  "applySet ps doc =
     (case doc of
        JObj ob \<Rightarrow> JObj (foldl (\<lambda>d kv. AList.update (fst kv) (snd kv) d) ob ps)
      | _ \<Rightarrow> doc)"

definition memUpdate ::
  "bool \<Rightarrow> memdb \<Rightarrow> string \<Rightarrow> obj \<Rightarrow> obj \<Rightarrow> jsval \<Rightarrow> err + jsval \<times> memdb" where
  "memUpdate multi db coll q upd opts =
     (case upd of
        [(k, JObj ps)] \<Rightarrow>
          if k = ''$set'' then
            (let hit = (\<lambda>doc. matchDoc q doc
                          \<and> (multi \<or> doc = hd (filter (matchDoc q) (docs db coll))))
             in Inr (JObj [(''matchedCount'',
                            JNum (int (length (filter hit (docs db coll)))))],
                     AList.update coll
                       (map (\<lambda>doc. if hit doc then applySet ps doc else doc) (docs db coll)) db))
          else Inl (Rejected (JStr ''unknown modifier''))
      | _ \<Rightarrow> Inl (Rejected (JStr ''invalid update document'')))"

definition withNames :: "obj \<Rightarrow> jsval list" where
  "withNames opts = (case getProp opts ''with'' of JArr xs \<Rightarrow> xs | _ \<Rightarrow> [])"

definition memEnv :: "memdb env" where
  "memEnv = \<lparr>
     config = [(''translateId'', JBool True), (''raw'', JBool False),
               (''findOpts'', JObj []), (''findOneOpts'', JObj []),
               (''updateOpts'', JObj [])],
     adapterReserved = [''orderBy'', ''sort'', ''limit'', ''offset'', ''skip'', ''where''],
     client = None,
     hook = (\<lambda>name m args. Inr JUndefined),
     underscore = (\<lambda>s. s),
     oidValid = (\<lambda>s. length s = 24),
     oidNew = (\<lambda>s. s),
     nativeFindOne = memFindOne,
     nativeFind = memFind,
     nativeUpdateOne = memUpdate False,
     nativeUpdateMany = memUpdate True,
     inScope = (\<lambda>opts d. JStr (relation d) \<in> set (withNames opts)
                        \<or> JStr (localField d) \<in> set (withNames opts)),
     childOpts = (\<lambda>opts d. AList.update ''with'' (JArr []) opts),
     loadRelation = (\<lambda>name m d r opts db. Inl OutOfModel),
     makeHasManyForeignKeys = (\<lambda>m d r. docField r (idAttribute m))
   \<rparr>"





definition labelMapper :: mapper where
  "labelMapper = Mapper ''label'' None ''_id'' [] []"

definition noteMapper :: mapper where
  "noteMapper = Mapper ''note'' None ''_id'' [''labels'']
     [RelDef ''hasMany'' ''label'' ''labels'' None (Some ''labelIds'') None labelMapper]"

definition db8 :: memdb where
  "db8 = [(''note'', [JObj [(''_id'', JObjectID ''a123456789abcdef01234567''),
                           (''labelIds'', JArr [JStr ''0123456789abcdef01234567'', JNull,
                                               JStr ''1123456789abcdef01234567''])],
                     JObj [(''_id'', JObjectID ''b123456789abcdef01234567''),
                           (''labelIds'', JArr [JStr ''1123456789abcdef01234567'', JNum 0,
                                               JStr '''', JStr ''misc''])]]),
          (''label'', [JObj [(''_id'', JObjectID ''0123456789abcdef01234567'')],
                      JObj [(''_id'', JObjectID ''1123456789abcdef01234567'')],
                      JObj [(''_id'', JStr ''misc'')],
                      JObj [(''_id'', JObjectID ''2123456789abcdef01234567'')]])]"

definition userMapper :: mapper where
  "userMapper = Mapper ''user'' None ''_id'' [] []"

definition db4 :: memdb where
  "db4 = [(''user'', [JObj [(''_id'', JObjectID ''0123456789abcdef01234567''), (''age'', JNum 30)],
                     JObj [(''_id'', JObjectID ''1123456789abcdef01234567''), (''age'', JNum 30)],
                     JObj [(''_id'', JObjectID ''2123456789abcdef01234567''), (''age'', JNum 30)],
                     JObj [(''_id'', JNum 0), (''age'', JNum 31)]])]"






text \<open>
  The identifier of a record as stored and as returned: \<open>idTranslated stored returned\<close>
  says that the returned value is not an ObjectID, is a string when the stored value is
  truthy, and is the stored value otherwise.
\<close>

definition isOid :: "jsval \<Rightarrow> bool" where
  "isOid v = (case v of JObjectID h \<Rightarrow> True | _ \<Rightarrow> False)"

definition idOf :: "jsval \<Rightarrow> jsval" where
  "idOf r = (case r of JObj ob \<Rightarrow> getProp ob ''_id'' | _ \<Rightarrow> JUndefined)"

definition idTranslated :: "jsval \<Rightarrow> jsval \<Rightarrow> bool" where
  "idTranslated stored returned =
     (\<not> isOid returned \<and> (if truthy stored then isString returned else returned = stored))"

text \<open>
  \<open>keepsIds v v'\<close>: a relation loader of js-data-adapter handed \<open>v\<close> (a record or a list of
  records) and returned \<open>v'\<close> with the same identifiers. \<open>payloadOf\<close> is the payload of
  what \<^verbatim>\<open>respond\<close> returned: the value itself, or the \<^verbatim>\<open>data\<close> of the response when
  \<^verbatim>\<open>raw\<close> is set.
\<close>

definition keepsIds :: "jsval \<Rightarrow> jsval \<Rightarrow> bool" where
  "keepsIds v v' =
     (idOf v' = idOf v
      \<and> (case v of
           JArr rs \<Rightarrow> (case v' of JArr rs' \<Rightarrow> map idOf rs' = map idOf rs | _ \<Rightarrow> True)
         | _ \<Rightarrow> True))"

definition payloadOf :: "'s env \<Rightarrow> obj \<Rightarrow> jsval \<Rightarrow> jsval" where
  "payloadOf E opts out =
     (if truthy (getOpt E ''raw'' opts)
      then (case out of JObj response \<Rightarrow> getProp response ''data'' | _ \<Rightarrow> JUndefined)
      else out)"


section \<open>Properties of the query translation\<close>

text \<open>
  C1. For the query \<^verbatim>\<open>{status: 'active', age: {'>': 18}, orderBy: 'name', limit: 10}\<close>
  the loop over the top-level keys leaves \<^verbatim>\<open>where\<close> as
  \<^verbatim>\<open>{status: {'==': 'active'}, age: {'>': 18}}\<close>, getQuery returns
  \<^verbatim>\<open>{status: 'active', age: {$gt: 18}}\<close> and getQueryOptions returns
  \<^verbatim>\<open>{sort: [['name', 'asc']], limit: 10}\<close>, for every list of reserved words that
  holds \<^verbatim>\<open>orderBy\<close>, \<^verbatim>\<open>limit\<close> and \<^verbatim>\<open>where\<close> and neither \<^verbatim>\<open>status\<close> nor
  \<^verbatim>\<open>age\<close>.
\<close>

theorem getQuery_scenario:
  assumes "''orderBy'' \<in> set reserved" and "''limit'' \<in> set reserved"
    and "''where'' \<in> set reserved"
    and "''status'' \<notin> set reserved" and "''age'' \<notin> set reserved"
  shows "normalizeQuery reserved
           [(''status'', JStr ''active''), (''age'', JObj [(''>'', JNum 18)]),
            (''orderBy'', JStr ''name''), (''limit'', JNum 10)]
         = Inr [(''orderBy'', JStr ''name''), (''limit'', JNum 10),
                (''where'', JObj [(''status'', JObj [(''=='', JStr ''active'')]),
                                  (''age'', JObj [(''>'', JNum 18)])])]
       \<and> getQuery reserved
           [(''status'', JStr ''active''), (''age'', JObj [(''>'', JNum 18)]),
            (''orderBy'', JStr ''name''), (''limit'', JNum 10)]
         = Inr [(''status'', JStr ''active''), (''age'', JObj [(''$gt'', JNum 18)])]
       \<and> getQueryOptions
           [(''status'', JStr ''active''), (''age'', JObj [(''>'', JNum 18)]),
            (''orderBy'', JStr ''name''), (''limit'', JNum 10)]
         = Inr [(''sort'', JArr [JArr [JStr ''name'', JStr ''asc'']]), (''limit'', JNum 10)]"
  using assms
  by (simp add: normalizeQuery_def getQuery_def foldKeyword_def getProp_def
      translateFilter_def translateField_def applyOp_def setSub_def readProp_def
      objectPrototypeMembers_def js_or_def
      getQueryOptions_def setIfTruthy_def orderPair_def)

theorem getQuery_scenario_witness:
  "normalizeQuery [''orderBy'', ''sort'', ''limit'', ''offset'', ''skip'', ''where'']
           [(''status'', JStr ''active''), (''age'', JObj [(''>'', JNum 18)]),
            (''orderBy'', JStr ''name''), (''limit'', JNum 10)]
         = Inr [(''orderBy'', JStr ''name''), (''limit'', JNum 10),
                (''where'', JObj [(''status'', JObj [(''=='', JStr ''active'')]),
                                  (''age'', JObj [(''>'', JNum 18)])])]
       \<and> getQuery [''orderBy'', ''sort'', ''limit'', ''offset'', ''skip'', ''where'']
           [(''status'', JStr ''active''), (''age'', JObj [(''>'', JNum 18)]),
            (''orderBy'', JStr ''name''), (''limit'', JNum 10)]
         = Inr [(''status'', JStr ''active''), (''age'', JObj [(''$gt'', JNum 18)])]
       \<and> getQueryOptions
           [(''status'', JStr ''active''), (''age'', JObj [(''>'', JNum 18)]),
            (''orderBy'', JStr ''name''), (''limit'', JNum 10)]
         = Inr [(''sort'', JArr [JArr [JStr ''name'', JStr ''asc'']]), (''limit'', JNum 10)]"
  using getQuery_scenario
          [of "[''orderBy'', ''sort'', ''limit'', ''offset'', ''skip'', ''where'']"]
  by simp

subsection \<open>Operators outside the table\<close>

lemma applyOp_unknown: "op \<notin> set operatorTable \<Longrightarrow> applyOp field (op, v) mq = Inr mq"
  by (simp add: operatorTable_def applyOp_def)

lemma foldE_applyOp_delete:
  assumes "op \<notin> set operatorTable"
  shows "foldE (applyOp field) (AList.delete op ops) mq = foldE (applyOp field) ops mq"
proof (induction ops arbitrary: mq)
  case Nil
  show ?case by simp
next
  case (Cons p ops)
  show ?case
  proof (cases "fst p = op")
    case True
    then have "p = (op, snd p)" by (cases p) simp
    then have "applyOp field p mq = Inr mq" using applyOp_unknown[OF assms] by metis
    with True Cons show ?thesis by simp
  next
    case False
    with Cons show ?thesis by (simp split: sum.splits)
  qed
qed

lemma translateField_dropOp:
  assumes "op \<notin> set operatorTable"
  shows "translateField (f, dropOp op c) mq = translateField (f, c) mq"
  by (cases c rule: ownEntries.cases) (simp_all add: translateField_def foldE_applyOp_delete[OF assms])

lemma foldE_translateField_drop:
  assumes "op \<notin> set operatorTable"
  shows "foldE translateField (mapValues (dropAt field op) es) mq = foldE translateField es mq"
proof (induction es arbitrary: mq)
  case Nil
  show ?case by (simp add: mapValues_def)
next
  case (Cons e es)
  have "translateField (fst e, dropAt field op (fst e) (snd e)) mq = translateField e mq"
    by (cases e) (simp add: dropAt_def translateField_dropOp[OF assms])
  with Cons show ?case by (simp add: mapValues_def split: sum.splits)
qed

lemma translateFilter_dropInWhere:
  assumes "op \<notin> set operatorTable"
  shows "translateFilter (dropInWhere field op w) = translateFilter w"
  by (cases w) (simp_all add: translateFilter_def foldE_translateField_drop[OF assms])

lemma mapValues_Nil: "mapValues h [] = []"
  by (simp add: mapValues_def)

lemma mapValues_update:
  "mapValues h (AList.update k v es) = AList.update k (h k v) (mapValues h es)"
  by (induction es) (auto simp: mapValues_def)

lemma mapValues_delete:
  "mapValues h (AList.delete k es) = AList.delete k (mapValues h es)"
  by (induction es) (auto simp: mapValues_def)

lemma map_of_mapValues:
  "map_of (mapValues h es) k = map_option (h k) (map_of es k)"
  by (induction es) (auto simp: mapValues_def)

lemma keys_mapValues: "map fst (mapValues h es) = map fst es"
  by (simp add: mapValues_def comp_def)

lemma getProp_dropPair_where:
  "getProp (dropPair field op q) ''where'' = dropInWhere field op (getProp q ''where'')"
  by (simp add: getProp_def dropPair_def map_of_mapValues dropTop_def split: option.splits)

lemma getProp_dropPair_other:
  "k \<noteq> ''where'' \<Longrightarrow> getProp (dropPair field op q) k = dropAt field op k (getProp q k)"
  by (simp add: getProp_def dropPair_def map_of_mapValues dropTop_def dropAt_def split: option.splits)

lemma isObject_dropOp: "isObject (dropOp op v) = isObject v"
  by (cases v) simp_all

lemma truthy_dropInWhere: "truthy (dropInWhere field op v) = truthy v"
  by (cases v) simp_all

lemma setProp_dropInWhere:
  "setProp (dropInWhere field op w) k (dropAt field op k x)
   = map_sum id (dropInWhere field op) (setProp w k x)"
  by (cases w) (simp_all add: mapValues_update)

lemma foldKeyword_dropPair:
  assumes "op \<notin> set operatorTable"
  shows "foldKeyword reserved k (dropPair field op q)
         = map_sum id (dropPair field op) (foldKeyword reserved k q)"
proof (cases "k \<in> set reserved")
  case True
  then show ?thesis by (simp add: foldKeyword_def)
next
  case False
  have ne: "op \<noteq> ''==''" using assms by (auto simp: operatorTable_def)
  define x where "x = (if isObject (getProp q k) then getProp q k else JObj [(''=='', getProp q k)])"
  show ?thesis
  proof (cases "k = ''where''")
    case kw: True
    have cfg: "getProp (dropPair field op q) ''where'' = dropInWhere field op (getProp q ''where'')"
      by (rule getProp_dropPair_where)
    have dp: "\<And>q. AList.delete ''where'' (dropPair field op q)
                   = dropPair field op (AList.delete ''where'' q)"
      by (simp add: dropPair_def mapValues_delete)
    show ?thesis
      unfolding kw foldKeyword_def Let_def cfg
      using False kw
      by (cases "getProp q ''where''") (simp_all add: AList.delete_update_same dp)
  next
    case kw: False
    have cfg: "getProp (dropPair field op q) k = dropAt field op k (getProp q k)"
      using kw by (rule getProp_dropPair_other)
    have x': "(if isObject (dropAt field op k (getProp q k)) then dropAt field op k (getProp q k)
               else JObj [(''=='', dropAt field op k (getProp q k))]) = dropAt field op k x"
      using ne by (cases "getProp q k") (auto simp: x_def dropAt_def)
    show ?thesis
      using False kw
      apply (simp add: foldKeyword_def Let_def cfg x' getProp_dropPair_where x_def[symmetric]
            setProp_dropInWhere)
      apply (cases "setProp (getProp q ''where'') k x")
       apply (simp_all add: dropPair_def mapValues_update mapValues_delete dropTop_def)
      done
  qed
qed


lemma foldE_map_sum:
  assumes "\<And>x s. f x (g s) = map_sum id g (f x s)"
  shows "foldE f xs (g s) = map_sum id g (foldE f xs s)"
proof (induction xs arbitrary: s)
  case Nil
  show ?case by simp
next
  case (Cons x xs)
  show ?case by (cases "f x s") (simp_all add: assms Cons)
qed

lemma normalizeQuery_dropPair:
  assumes "op \<notin> set operatorTable"
  shows "normalizeQuery reserved (dropPair field op q)
         = map_sum id (dropPair field op) (normalizeQuery reserved q)"
proof -
  have upd: "AList.update ''where'' (JObj []) (dropPair field op q)
             = dropPair field op (AList.update ''where'' (JObj []) q)"
    by (simp add: dropPair_def mapValues_update dropTop_def mapValues_Nil)
  have keys: "\<And>q. map fst (dropPair field op q) = map fst q"
    by (simp add: dropPair_def keys_mapValues)
  have fk: "\<And>xs s. foldE (foldKeyword reserved) xs (dropPair field op s)
                 = map_sum id (dropPair field op) (foldE (foldKeyword reserved) xs s)"
    by (rule foldE_map_sum) (rule foldKeyword_dropPair[OF assms])
  show ?thesis
    unfolding normalizeQuery_def Let_def getProp_dropPair_where truthy_dropInWhere
    by (simp add: upd keys fk)
qed

text \<open>
  C8. An operator that is not in the table makes the chain fall through: the step returns
  the native filter as it was, with no error, and getQuery gives the same result,
  success or failure, as on the query without that (operator, operand) pair.
\<close>

theorem unknown_operator_ignored:
  assumes "op \<notin> set operatorTable"
  shows "applyOp field (op, v) mongoQuery = Inr mongoQuery
       \<and> getQuery reserved (dropPair field op query) = getQuery reserved query"
proof -
  have "getQuery reserved (dropPair field op query) = getQuery reserved query"
    by (cases "normalizeQuery reserved query")
       (simp_all add: getQuery_def normalizeQuery_dropPair[OF assms] getProp_dropPair_where
          translateFilter_dropInWhere[OF assms])
  then show ?thesis using applyOp_unknown[OF assms] by simp
qed

theorem unknown_operator_ignored_witness:
  "''like'' \<notin> set operatorTable
   \<and> applyOp ''name'' (''like'', JStr ''a%'') [(''age'', JNum 3)] = Inr [(''age'', JNum 3)]
   \<and> getQuery [''where'']
        [(''name'', JObj [(''>'', JStr ''a'')]),
         (''where'', JObj [(''age'', JObj [(''<'', JNum 3)])])]
     = Inr [(''age'', JObj [(''$lt'', JNum 3)]), (''name'', JObj [(''$gt'', JStr ''a'')])]
   \<and> getQuery [''where'']
        [(''name'', JObj [(''like'', JStr ''a%''), (''>'', JStr ''a'')]),
         (''where'', JObj [(''age'', JObj [(''<'', JNum 3)])])]
     = Inr [(''age'', JObj [(''$lt'', JNum 3)]), (''name'', JObj [(''$gt'', JStr ''a'')])]"
proof -
  have h: "''like'' \<notin> set operatorTable"
    by (simp add: operatorTable_def)
  have d: "dropPair ''name'' ''like''
             [(''name'', JObj [(''like'', JStr ''a%''), (''>'', JStr ''a'')]),
              (''where'', JObj [(''age'', JObj [(''<'', JNum 3)])])]
           = [(''name'', JObj [(''>'', JStr ''a'')]),
              (''where'', JObj [(''age'', JObj [(''<'', JNum 3)])])]"
    by (simp add: dropPair_def mapValues_def dropTop_def dropAt_def)
  have g: "getQuery [''where'']
        [(''name'', JObj [(''>'', JStr ''a'')]),
         (''where'', JObj [(''age'', JObj [(''<'', JNum 3)])])]
     = Inr [(''age'', JObj [(''$lt'', JNum 3)]), (''name'', JObj [(''$gt'', JStr ''a'')])]"
    by (simp add: normalizeQuery_def getQuery_def foldKeyword_def getProp_def
      translateFilter_def translateField_def applyOp_def setSub_def readProp_def
      objectPrototypeMembers_def js_or_def)
  show ?thesis
    using h g d
      unknown_operator_ignored [OF h, of "''name''" "JStr ''a%''" "[(''age'', JNum 3)]"
        "[''where'']"
        "[(''name'', JObj [(''like'', JStr ''a%''), (''>'', JStr ''a'')]),
          (''where'', JObj [(''age'', JObj [(''<'', JNum 3)])])]"]
    by simp
qed

subsection \<open>The translation seen per field\<close>

lemma applyOp_char:
  "applyOp f ov mq =
     (if eqOp (fst ov) then Inr (AList.update f (snd ov) mq)
      else case nativeKey (fst ov) of
        Some k \<Rightarrow> setSub f k (snd ov) mq
      | None \<Rightarrow> (case orClause f ov of Some c \<Rightarrow> pushOr c mq | None \<Rightarrow> Inr mq))"
  by (simp add: applyOp_def eqOp_def nativeKey_def orClause_def Let_def)


lemma orInv_orsOf_upd: "orsOf (m(''$or'' := orv cs)) = cs"
  by (cases cs) (simp_all add: orsOf_def orv_def)

lemma orInv_upd: "orInv (m(''$or'' := orv cs))"
  by (simp add: orInv_def orInv_orsOf_upd)

lemma orInv_self: "orInv m \<Longrightarrow> m(''$or'' := orv (orsOf m)) = m"
  by (auto simp: orInv_def)

lemma orInv_self2: "orInv m \<Longrightarrow> f \<noteq> ''$or'' \<Longrightarrow> m(f := s, ''$or'' := orv (orsOf m)) = m(f := s)"
  by (auto simp: orInv_def fun_eq_iff)

lemma getProp_map_of: "getProp mq k = (case map_of mq k of None \<Rightarrow> JUndefined | Some v \<Rightarrow> v)"
  by (simp add: getProp_def)

lemma pushOr_abs:
  assumes "orInv (map_of mq)"
  shows "map_sum id map_of (pushOr c mq) = Inr ((map_of mq)(''$or'' := orv (orsOf (map_of mq) @ [c])))"
proof (cases "orsOf (map_of mq) = []")
  case True
  with assms have "map_of mq ''$or'' = None" by (simp add: orInv_def orv_def)
  with True show ?thesis
    by (simp add: pushOr_def getProp_def js_or_def orv_def AList.update_conv')
next
  case False
  with assms have "map_of mq ''$or'' = Some (JArr (orsOf (map_of mq)))" by (simp add: orInv_def orv_def)
  then show ?thesis
    by (simp add: pushOr_def getProp_def js_or_def orv_def AList.update_conv')
qed

lemma applyOp_abs:
  assumes "f \<noteq> ''$or''" and "orInv (map_of mq)"
  shows "map_sum id map_of (applyOp f ov mq) = aStep f ov (map_of mq)"
proof (cases "eqOp (fst ov)")
  case True
  then show ?thesis using assms
    by (simp add: applyOp_char aStep_def slotStep_def orStep_def AList.update_conv' orInv_self orInv_self2)
next
  case False
  show ?thesis
  proof (cases "nativeKey (fst ov)")
    case (Some k)
    show ?thesis using assms False Some
      by (auto simp add: applyOp_char aStep_def slotStep_def slotRead_def orStep_def setSub_def
          readProp_def AList.update_conv' orInv_self orInv_self2
          split: sum.splits option.splits)
  next
    case None
    show ?thesis
    proof (cases "orClause f ov")
      case N2: None
      with None False assms show ?thesis
        by (simp add: applyOp_char aStep_def slotStep_def orStep_def orInv_self)
    next
      case (Some c)
      have "(map_of mq)(f := map_of mq f) = map_of mq" by auto
      with Some None False assms pushOr_abs[OF assms(2), of c] show ?thesis
        by (simp add: applyOp_char aStep_def slotStep_def orStep_def)
    qed
  qed
qed


lemma aStep_orInv: "aStep f ov m = Inr m' \<Longrightarrow> orInv m'"
  by (auto simp: aStep_def orInv_upd split: sum.splits)

lemma foldE_applyOp_abs:
  assumes "f \<noteq> ''$or''"
  shows "orInv (map_of mq) \<Longrightarrow>
         map_sum id map_of (foldE (applyOp f) ops mq) = foldE (aStep f) ops (map_of mq)"
proof (induction ops arbitrary: mq)
  case Nil
  show ?case by simp
next
  case (Cons ov ops)
  have st: "map_sum id map_of (applyOp f ov mq) = aStep f ov (map_of mq)"
    using assms Cons.prems by (rule applyOp_abs)
  show ?case
  proof (cases "applyOp f ov mq")
    case (Inl e)
    with st have "aStep f ov (map_of mq) = Inl e" by simp
    with Inl show ?thesis by simp
  next
    case (Inr mq1)
    with st have a: "aStep f ov (map_of mq) = Inr (map_of mq1)" by simp
    then have "orInv (map_of mq1)" by (rule aStep_orInv)
    from Cons.IH[OF this] Inr a show ?thesis by simp
  qed
qed

lemma foldE_aStep_closed:
  assumes "f \<noteq> ''$or''"
  shows "orInv m \<Longrightarrow>
         foldE (aStep f) ops m =
           (case foldE (slotStep f) ops (m f) of
              Inl e \<Rightarrow> Inl e
            | Inr s \<Rightarrow> Inr (m(f := s, ''$or'' := orv (orsOf m @ concat (map (orStep f) ops)))))"
proof (induction ops arbitrary: m)
  case Nil
  then show ?case using assms by (simp add: orInv_self)
next
  case (Cons ov ops)
  show ?case
  proof (cases "slotStep f ov (m f)")
    case (Inl e)
    then show ?thesis by (simp add: aStep_def)
  next
    case (Inr s1)
    define m1 where "m1 = m(f := s1, ''$or'' := orv (orsOf m @ orStep f ov))"
    have a: "aStep f ov m = Inr m1" using Inr by (simp add: aStep_def m1_def)
    have inv: "orInv m1" using a by (rule aStep_orInv)
    have f1: "m1 f = s1" using assms by (simp add: m1_def)
    have o1: "orsOf m1 = orsOf m @ orStep f ov" by (simp add: m1_def orInv_orsOf_upd)
    have upd: "\<And>s cs. m1(f := s, ''$or'' := cs) = m(f := s, ''$or'' := cs)"
      by (auto simp: m1_def fun_eq_iff)
    show ?thesis
    proof (cases "foldE (slotStep f) ops s1")
      case (Inl e)
      then show ?thesis using Cons.IH[OF inv] a Inr by (simp add: f1)
    next
      case r: (Inr s)
      then show ?thesis using Cons.IH[OF inv] a Inr by (simp add: f1 o1 upd)
    qed
  qed
qed

lemma translateField_abs:
  assumes "f \<noteq> ''$or''" and "orInv (map_of mq)" and "map_of mq f = None"
  shows "map_sum id map_of (translateField (f, c) mq) =
           (case fieldSlot (f, c) of
              Inl e \<Rightarrow> Inl e
            | Inr s \<Rightarrow> Inr ((map_of mq)(f := s, ''$or'' := orv (orsOf (map_of mq) @ fieldOrs (f, c)))))"
proof (cases "ownEntries c")
  case (Inl e)
  then show ?thesis by (simp add: translateField_def fieldSlot_def)
next
  case (Inr ops)
  have fo: "fieldOrs (f, c) = concat (map (orStep f) ops)"
    using Inr by (simp add: fieldOrs_def)
  have "map_sum id map_of (translateField (f, c) mq) = foldE (aStep f) ops (map_of mq)"
    using Inr foldE_applyOp_abs[OF assms(1,2), of ops] by (simp add: translateField_def)
  also have "\<dots> = (case foldE (slotStep f) ops None of
              Inl e \<Rightarrow> Inl e
            | Inr s \<Rightarrow> Inr ((map_of mq)(f := s, ''$or'' := orv (orsOf (map_of mq) @ fieldOrs (f, c)))))"
    using foldE_aStep_closed[OF assms(1,2), of ops] assms(3) by (simp add: fo split: sum.splits)
  finally show ?thesis using Inr by (simp add: fieldSlot_def)
qed


lemma foldE_translateField_closed:
  "distinct (map fst es) \<Longrightarrow> ''$or'' \<notin> fst ` set es \<Longrightarrow> orInv (map_of mq) \<Longrightarrow>
   (\<forall>f \<in> fst ` set es. map_of mq f = None) \<Longrightarrow>
   (isl (foldE translateField es mq) \<longleftrightarrow> (\<exists>fc \<in> set es. isl (fieldSlot fc))) \<and>
   (\<forall>d. foldE translateField es mq = Inr d \<longrightarrow> map_of d = whereMap es (map_of mq))"
proof (induction es arbitrary: mq)
  case Nil
  then show ?case by (auto simp: whereMap_def fun_eq_iff orInv_def)
next
  case (Cons fc es)
  obtain f c where fc: "fc = (f, c)" by (cases fc)
  from Cons.prems fc have fne: "f \<noteq> ''$or''" and fnone: "map_of mq f = None"
    and fnotin: "f \<notin> fst ` set es" by auto
  note ab = translateField_abs[OF fne Cons.prems(3) fnone, of c]
  show ?case
  proof (cases "fieldSlot (f, c)")
    case (Inl e)
    with ab have "isl (translateField (f, c) mq)" by (cases "translateField (f, c) mq") simp_all
    then show ?thesis using Inl fc by (cases "translateField (f, c) mq") simp_all
  next
    case (Inr s)
    with ab obtain mq1 where t: "translateField (f, c) mq = Inr mq1"
      and m1: "map_of mq1 = (map_of mq)(f := s, ''$or'' := orv (orsOf (map_of mq) @ fieldOrs (f, c)))"
      by (cases "translateField (f, c) mq") simp_all
    have inv1: "orInv (map_of mq1)" by (simp add: m1 orInv_upd)
    have d1: "distinct (map fst es)" and o1: "''$or'' \<notin> fst ` set es"
      using Cons.prems by auto
    have none1: "\<forall>g \<in> fst ` set es. map_of mq1 g = None"
    proof
      fix g
      assume g: "g \<in> fst ` set es"
      have "g \<noteq> f" using fnotin g by blast
      moreover have "g \<noteq> ''$or''" using o1 g by blast
      moreover have "map_of mq g = None" using Cons.prems(4) g by force
      ultimately show "map_of mq1 g = None" by (simp add: m1)
    qed
    note IH = Cons.IH[OF d1 o1 inv1 none1]
    have wm: "whereMap es (map_of mq1) = whereMap (fc # es) (map_of mq)"
    proof
      fix k
      show "whereMap es (map_of mq1) k = whereMap (fc # es) (map_of mq) k"
      proof (cases "k = ''$or''")
        case True
        then show ?thesis by (simp add: whereMap_def m1 orInv_orsOf_upd fc)
      next
        case ko: False
        show ?thesis
        proof (cases "k = f")
          case True
          have "map_of es f = None" using fnotin by (simp add: map_of_eq_None_iff)
          then show ?thesis using True fne Inr by (simp add: whereMap_def m1 fc slotVal_def)
        next
          case False
          then show ?thesis using ko by (simp add: whereMap_def m1 fc split: option.splits)
        qed
      qed
    qed
    show ?thesis using IH t Inr fc wm by simp
  qed
qed


lemma orClauses_orsOf: "orClauses d = orsOf (map_of d)"
  by (auto simp: orClauses_def orsOf_def getProp_def split: option.splits jsval.splits)

lemma mset_concat_map_perm:
  "mset es' = mset es \<Longrightarrow> mset (concat (map g es')) = mset (concat (map g es))"
proof -
  assume a: "mset es' = mset es"
  have "\<And>xs. mset (concat (map g xs)) = (\<Sum>x\<in>#mset xs. mset (g x))"
    by (induct_tac xs) simp_all
  with a show ?thesis by simp
qed

lemma slotStep_compose:
  assumes "\<not> eqOp (fst ov)" and "f \<notin> set objectPrototypeMembers"
  shows "slotStep f ov None =
           Inr (case nativeKey (fst ov) of Some k \<Rightarrow> Some (JObj [(k, snd ov)]) | None \<Rightarrow> None)"
    and "slotStep f ov (Some (JObj s0)) =
           Inr (Some (JObj (case nativeKey (fst ov) of Some k \<Rightarrow> AList.update k (snd ov) s0 | None \<Rightarrow> s0)))"
  using assms by (simp_all add: slotStep_def slotRead_def js_or_def split: option.splits)

lemma slotFold_obj:
  "\<forall>ov \<in> set ops. \<not> eqOp (fst ov) \<Longrightarrow> f \<notin> set objectPrototypeMembers \<Longrightarrow>
   \<exists>sub. foldE (slotStep f) ops (Some (JObj s0)) = Inr (Some (JObj sub))
       \<and> map_of sub = map_of (rev (nativePairs ops) @ s0)"
proof (induction ops arbitrary: s0)
  case Nil
  show ?case by (simp add: nativePairs_def)
next
  case (Cons ov ops)
  then have ne: "\<not> eqOp (fst ov)" and rest: "\<forall>ov \<in> set ops. \<not> eqOp (fst ov)" by simp_all
  note np = Cons.prems(2)
  show ?case
  proof (cases "nativeKey (fst ov)")
    case None
    with Cons.IH[OF rest np, of s0] slotStep_compose(2)[OF ne np, of s0] show ?thesis
      by (simp add: nativePairs_def)
  next
    case (Some k)
    from Cons.IH[OF rest np, of "AList.update k (snd ov) s0"]
    obtain sub where a: "foldE (slotStep f) ops (Some (JObj (AList.update k (snd ov) s0))) = Inr (Some (JObj sub))"
      and b: "map_of sub = map_of (rev (nativePairs ops) @ AList.update k (snd ov) s0)" by blast
    have "map_of sub = map_of (rev (nativePairs (ov # ops)) @ s0)"
      using Some by (simp add: b nativePairs_def AList.update_conv')
    with a Some slotStep_compose(2)[OF ne np, of s0] show ?thesis by simp
  qed
qed

lemma slotFold_none:
  "\<forall>ov \<in> set ops. \<not> eqOp (fst ov) \<Longrightarrow> \<exists>ov \<in> set ops. nativeKey (fst ov) \<noteq> None \<Longrightarrow>
   f \<notin> set objectPrototypeMembers \<Longrightarrow>
   \<exists>sub. foldE (slotStep f) ops None = Inr (Some (JObj sub))
       \<and> map_of sub = map_of (rev (nativePairs ops))"
proof (induction ops)
  case Nil
  then show ?case by simp
next
  case (Cons ov ops)
  then have ne: "\<not> eqOp (fst ov)" and rest: "\<forall>ov \<in> set ops. \<not> eqOp (fst ov)" by simp_all
  note np = Cons.prems(3)
  show ?case
  proof (cases "nativeKey (fst ov)")
    case None
    with Cons.prems have "\<exists>ov \<in> set ops. nativeKey (fst ov) \<noteq> None" by auto
    from Cons.IH[OF rest this np] None slotStep_compose(1)[OF ne np] show ?thesis
      by (simp add: nativePairs_def)
  next
    case (Some k)
    from slotFold_obj[OF rest np, of "[(k, snd ov)]"] Some slotStep_compose(1)[OF ne np]
    show ?thesis by (simp add: nativePairs_def)
  qed
qed

subsection \<open>Order of the fields\<close>

text \<open>
  C2, as stated, fails: two fields that each carry a \<^verbatim>\<open>|\<close>-prefixed operator push
  their clauses on \<^verbatim>\<open>$or\<close> in processing order, so the two orders give different
  native filters.
\<close>

theorem translateFilter_order_counterexample:
  "translateFilter (JObj [(''a'', JObj [(''|=='', JNum 1)]), (''b'', JObj [(''|=='', JNum 2)])])
     = Inr [(''$or'', JArr [JObj [(''a'', JNum 1)], JObj [(''b'', JNum 2)]])]
   \<and> translateFilter (JObj [(''b'', JObj [(''|=='', JNum 2)]), (''a'', JObj [(''|=='', JNum 1)])])
     = Inr [(''$or'', JArr [JObj [(''b'', JNum 2)], JObj [(''a'', JNum 1)]])]
   \<and> translateFilter (JObj [(''a'', JObj [(''|=='', JNum 1)]), (''b'', JObj [(''|=='', JNum 2)])])
     \<noteq> translateFilter (JObj [(''b'', JObj [(''|=='', JNum 2)]), (''a'', JObj [(''|=='', JNum 1)])])"
  by (simp add: translateFilter_def translateField_def applyOp_def pushOr_def js_or_def
      getProp_def)

text \<open>
  C2, amended. For a \<^verbatim>\<open>where\<close> object whose fields are distinct and none of which is
  named \<^verbatim>\<open>$or\<close>, processing the entries in any permutation fails in both orders or in
  neither; when it succeeds, the two native filters have the same value under every key
  other than \<^verbatim>\<open>$or\<close>, and their \<^verbatim>\<open>$or\<close> lists are both absent or hold the same
  clauses, in processing order.
\<close>

theorem translateFilter_permutation:
  assumes "distinct (map fst w)" and "mset w' = mset w" and "''$or'' \<notin> fst ` set w"
  shows "isl (translateFilter (JObj w')) = isl (translateFilter (JObj w))
       \<and> (\<forall>d d'. translateFilter (JObj w) = Inr d \<and> translateFilter (JObj w') = Inr d' \<longrightarrow>
             map_of (AList.delete ''$or'' d') = map_of (AList.delete ''$or'' d)
           \<and> mset (orClauses d') = mset (orClauses d)
           \<and> (''$or'' \<in> fst ` set d' \<longleftrightarrow> ''$or'' \<in> fst ` set d))"
proof -
  have s: "set w' = set w" using assms(2) by (rule mset_eq_setD)
  have d': "distinct (map fst w')"
    using assms(1,2) by (metis distinct_map mset_eq_imp_distinct_iff s)
  have o': "''$or'' \<notin> fst ` set w'" using assms(3) s by simp
  have inv: "orInv (map_of [])" by (simp add: orInv_def orsOf_def orv_def)
  have c: "(isl (foldE translateField w []) \<longleftrightarrow> (\<exists>fc \<in> set w. isl (fieldSlot fc))) \<and>
   (\<forall>d. foldE translateField w [] = Inr d \<longrightarrow> map_of d = whereMap w (map_of []))"
    by (rule foldE_translateField_closed[OF assms(1) assms(3) inv]) simp
  have c': "(isl (foldE translateField w' []) \<longleftrightarrow> (\<exists>fc \<in> set w'. isl (fieldSlot fc))) \<and>
   (\<forall>d. foldE translateField w' [] = Inr d \<longrightarrow> map_of d = whereMap w' (map_of []))"
    by (rule foldE_translateField_closed[OF d' o' inv]) simp
  have mo: "map_of w' = map_of w"
    using assms(1) d' s by (simp add: map_of_inject_set)
  have tf: "\<And>w. translateFilter (JObj w) = foldE translateField w []"
    by (simp add: translateFilter_def)
  have "isl (translateFilter (JObj w')) = isl (translateFilter (JObj w))"
    using c c' s by (simp add: tf)
  moreover have "map_of (AList.delete ''$or'' d') = map_of (AList.delete ''$or'' d)
           \<and> mset (orClauses d') = mset (orClauses d)
           \<and> (''$or'' \<in> fst ` set d' \<longleftrightarrow> ''$or'' \<in> fst ` set d)"
    if "translateFilter (JObj w) = Inr d" and "translateFilter (JObj w') = Inr d'" for d d'
  proof -
    from that c c' have m: "map_of d = whereMap w Map.empty" and m': "map_of d' = whereMap w' Map.empty"
      by (simp_all add: tf)
    have e: "orsOf Map.empty = []" by (simp add: orsOf_def)
    have o: "orsOf (whereMap w Map.empty) = concat (map fieldOrs w)" for w
      using orInv_orsOf_upd[of "whereMap w Map.empty" "concat (map fieldOrs w)"]
      by (simp add: whereMap_def orsOf_def e)
    have k: "map_of (AList.delete ''$or'' d') = map_of (AList.delete ''$or'' d)"
      by (simp add: AList.delete_conv' m m' whereMap_def mo fun_eq_iff)
    have ms: "mset (orClauses d') = mset (orClauses d)"
      by (simp add: orClauses_orsOf m m' o mset_concat_map_perm[OF assms(2)])
    have nil: "concat (map fieldOrs w') = [] \<longleftrightarrow> concat (map fieldOrs w) = []"
      using mset_concat_map_perm[OF assms(2), of fieldOrs] by (metis mset_zero_iff)
    have inD: "(''$or'' \<in> fst ` set x) = (map_of x ''$or'' \<noteq> None)" for x :: obj
      by (simp add: map_of_eq_None_iff)
    have "map_of d ''$or'' = orv (concat (map fieldOrs w))"
      and "map_of d' ''$or'' = orv (concat (map fieldOrs w'))"
      by (simp_all add: m m' whereMap_def e)
    then have dom: "''$or'' \<in> fst ` set d \<longleftrightarrow> concat (map fieldOrs w) \<noteq> []"
      "''$or'' \<in> fst ` set d' \<longleftrightarrow> concat (map fieldOrs w') \<noteq> []"
      unfolding inD by (simp_all add: orv_def)
    show ?thesis using k ms nil dom by simp
  qed
  ultimately show ?thesis by blast
qed

theorem translateFilter_permutation_witness:
  "translateFilter (JObj [(''a'', JObj [(''>'', JNum 1), (''|=='', JNum 5)]),
                          (''b'', JObj [(''=='', JNum 2), (''|<'', JNum 7)])])
     = Inr [(''a'', JObj [(''$gt'', JNum 1)]),
            (''$or'', JArr [JObj [(''a'', JNum 5)], JObj [(''b'', JObj [(''$lt'', JNum 7)])]]),
            (''b'', JNum 2)]
   \<and> translateFilter (JObj [(''b'', JObj [(''=='', JNum 2), (''|<'', JNum 7)]),
                            (''a'', JObj [(''>'', JNum 1), (''|=='', JNum 5)])])
     = Inr [(''b'', JNum 2),
            (''$or'', JArr [JObj [(''b'', JObj [(''$lt'', JNum 7)])], JObj [(''a'', JNum 5)]]),
            (''a'', JObj [(''$gt'', JNum 1)])]
   \<and> map_of (AList.delete ''$or''
         [(''b'', JNum 2),
          (''$or'', JArr [JObj [(''b'', JObj [(''$lt'', JNum 7)])], JObj [(''a'', JNum 5)]]),
          (''a'', JObj [(''$gt'', JNum 1)])])
     = map_of (AList.delete ''$or''
         [(''a'', JObj [(''$gt'', JNum 1)]),
          (''$or'', JArr [JObj [(''a'', JNum 5)], JObj [(''b'', JObj [(''$lt'', JNum 7)])]]),
          (''b'', JNum 2)])
   \<and> mset (orClauses
         [(''b'', JNum 2),
          (''$or'', JArr [JObj [(''b'', JObj [(''$lt'', JNum 7)])], JObj [(''a'', JNum 5)]]),
          (''a'', JObj [(''$gt'', JNum 1)])])
     = mset (orClauses
         [(''a'', JObj [(''$gt'', JNum 1)]),
          (''$or'', JArr [JObj [(''a'', JNum 5)], JObj [(''b'', JObj [(''$lt'', JNum 7)])]]),
          (''b'', JNum 2)])"
proof -
  let ?w = "[(''a'', JObj [(''>'', JNum 1), (''|=='', JNum 5)]),
             (''b'', JObj [(''=='', JNum 2), (''|<'', JNum 7)])]"
  let ?w' = "[(''b'', JObj [(''=='', JNum 2), (''|<'', JNum 7)]),
              (''a'', JObj [(''>'', JNum 1), (''|=='', JNum 5)])]"
  have h1: "distinct (map fst ?w)" by simp
  have h2: "mset ?w' = mset ?w" by (simp add: add_mset_commute)
  have h3: "''$or'' \<notin> fst ` set ?w" by simp
  have e: "translateFilter (JObj ?w)
     = Inr [(''a'', JObj [(''$gt'', JNum 1)]),
            (''$or'', JArr [JObj [(''a'', JNum 5)], JObj [(''b'', JObj [(''$lt'', JNum 7)])]]),
            (''b'', JNum 2)]"
    by (simp add: translateFilter_def translateField_def applyOp_def pushOr_def setSub_def
        readProp_def objectPrototypeMembers_def js_or_def getProp_def)
  have e': "translateFilter (JObj ?w')
     = Inr [(''b'', JNum 2),
            (''$or'', JArr [JObj [(''b'', JObj [(''$lt'', JNum 7)])], JObj [(''a'', JNum 5)]]),
            (''a'', JObj [(''$gt'', JNum 1)])]"
    by (simp add: translateFilter_def translateField_def applyOp_def pushOr_def setSub_def
        readProp_def objectPrototypeMembers_def js_or_def getProp_def)
  from translateFilter_permutation [OF h1 h2 h3] e e' show ?thesis by blast
qed

subsection \<open>Several operators on one field\<close>

lemma getQuery_where:
  "''where'' \<in> set reserved \<Longrightarrow>
   getQuery reserved [(''where'', JObj w)] = translateFilter (JObj w)"
  by (simp add: getQuery_def normalizeQuery_def foldKeyword_def getProp_def)

lemma translateFilter_closed:
  assumes "distinct (map fst w)" and "''$or'' \<notin> fst ` set w"
  shows "isl (translateFilter (JObj w)) \<longleftrightarrow> (\<exists>fc \<in> set w. isl (fieldSlot fc))"
    and "translateFilter (JObj w) = Inr d \<Longrightarrow> map_of d = whereMap w Map.empty"
proof -
  have inv: "orInv (map_of [])" by (simp add: orInv_def orsOf_def orv_def)
  have c: "(isl (foldE translateField w []) \<longleftrightarrow> (\<exists>fc \<in> set w. isl (fieldSlot fc))) \<and>
   (\<forall>d. foldE translateField w [] = Inr d \<longrightarrow> map_of d = whereMap w (map_of []))"
    by (rule foldE_translateField_closed[OF assms inv]) simp
  show "isl (translateFilter (JObj w)) \<longleftrightarrow> (\<exists>fc \<in> set w. isl (fieldSlot fc))"
    using c by (simp add: translateFilter_def)
  show "translateFilter (JObj w) = Inr d \<Longrightarrow> map_of d = whereMap w Map.empty"
    using c by (simp add: translateFilter_def)
qed

text \<open>
  C3, as stated, fails for the equality operators of the table: \<^verbatim>\<open>==\<close> after \<^verbatim>\<open>></\<close>
  replaces the sub-document by the bare operand, and \<^verbatim>\<open>==\<close> before \<^verbatim>\<open>></\<close> makes the
  write of \<^verbatim>\<open>$gt\<close> on a number a TypeError.
\<close>

theorem equality_operator_counterexample:
  "translateFilter (JObj [(''age'', JObj [(''>'', JNum 18), (''=='', JNum 21)])])
     = Inr [(''age'', JNum 21)]
   \<and> translateFilter (JObj [(''age'', JObj [(''=='', JNum 21), (''>'', JNum 18)])])
     = Inl TypeError"
  by (simp add: translateFilter_def translateField_def applyOp_def setSub_def readProp_def
      objectPrototypeMembers_def js_or_def getProp_def)

text \<open>
  C3, amended. Take a \<^verbatim>\<open>where\<close> object whose fields are distinct and none of which is
  named \<^verbatim>\<open>$or\<close>, with \<^verbatim>\<open>where\<close> a reserved word, and one field of it that is not
  named like a member of \<^verbatim>\<open>Object.prototype\<close> and whose criteria hold no equality
  operator (\<^verbatim>\<open>==\<close>, \<^verbatim>\<open>===\<close>, \<^verbatim>\<open>contains\<close>) and at least one comparison operator.
  Then getQuery succeeds on the query that holds this field alone; on the whole
  \<^verbatim>\<open>where\<close> object it fails exactly when it fails without this field; and whenever it
  succeeds, the native filter holds under the field one sub-document that maps each native
  key to the operand of the last comparison operator of the criteria that writes it, and
  has no other key.
\<close>

theorem comparison_operators_compose:
  assumes "''where'' \<in> set reserved"
    and "distinct (map fst w)"
    and "''$or'' \<notin> fst ` set w"
    and "(field, JObj ops) \<in> set w"
    and "field \<notin> set objectPrototypeMembers"
    and "\<forall>ov \<in> set ops. \<not> eqOp (fst ov)"
    and "\<exists>ov \<in> set ops. nativeKey (fst ov) \<noteq> None"
  shows "(\<exists>d sub. getQuery reserved [(''where'', JObj [(field, JObj ops)])] = Inr d
            \<and> map_of d field = Some (JObj sub)
            \<and> map_of sub = map_of (rev (nativePairs ops)))
       \<and> (isl (getQuery reserved [(''where'', JObj w)])
            \<longleftrightarrow> isl (getQuery reserved
                       [(''where'', JObj (filter (\<lambda>fc. fst fc \<noteq> field) w))]))
       \<and> (\<forall>d. getQuery reserved [(''where'', JObj w)] = Inr d \<longrightarrow>
            (\<exists>sub. map_of d field = Some (JObj sub)
                 \<and> map_of sub = map_of (rev (nativePairs ops))))"
proof -
  from slotFold_none[OF assms(6,7,5)] obtain sub
    where f: "foldE (slotStep field) ops None = Inr (Some (JObj sub))"
      and s: "map_of sub = map_of (rev (nativePairs ops))" by blast
  have fs: "fieldSlot (field, JObj ops) = Inr (Some (JObj sub))"
    using f by (simp add: fieldSlot_def)
  have sv: "slotVal (field, JObj ops) = Some (JObj sub)"
    using fs by (simp add: slotVal_def)
  have fne: "field \<noteq> ''$or''" using assms(3,4) by force
  have mw: "map_of w field = Some (JObj ops)"
    using assms(2,4) by simp
  have at: "map_of d field = Some (JObj sub)"
    if "translateFilter (JObj w) = Inr d" for d
    using translateFilter_closed(2)[OF assms(2,3) that] fne mw sv
    by (simp add: whereMap_def)
  let ?one = "[(field, JObj ops)]"
  have d1: "distinct (map fst ?one)" by simp
  have o1: "''$or'' \<notin> fst ` set ?one" using fne by simp
  have "\<not> isl (translateFilter (JObj ?one))"
    using translateFilter_closed(1)[OF d1 o1] fs by simp
  then obtain d0 where t0: "translateFilter (JObj ?one) = Inr d0"
    by (cases "translateFilter (JObj ?one)") simp_all
  have "map_of d0 field = Some (JObj sub)"
    using translateFilter_closed(2)[OF d1 o1 t0] fne sv by (simp add: whereMap_def)
  then have alone: "\<exists>d sub. translateFilter (JObj ?one) = Inr d
            \<and> map_of d field = Some (JObj sub)
            \<and> map_of sub = map_of (rev (nativePairs ops))"
    using t0 s by blast
  let ?rest = "filter (\<lambda>fc. fst fc \<noteq> field) w"
  have d2: "distinct (map fst ?rest)" using assms(2) by (simp add: distinct_map_filter)
  have o2: "''$or'' \<notin> fst ` set ?rest" using assms(3) by auto
  have only: "fc = (field, JObj ops)" if "fc \<in> set w" and "fst fc = field" for fc
  proof -
    have "fc = (field, snd fc)" using that(2) by (cases fc) simp
    with that(1) have "(field, snd fc) \<in> set w" by simp
    then have "map_of w field = Some (snd fc)" using assms(2) by simp
    with mw that(2) show ?thesis by (cases fc) simp
  qed
  have "(\<exists>fc \<in> set w. isl (fieldSlot fc)) \<longleftrightarrow> (\<exists>fc \<in> set ?rest. isl (fieldSlot fc))"
  proof
    assume "\<exists>fc \<in> set w. isl (fieldSlot fc)"
    then obtain fc where a: "fc \<in> set w" and b: "isl (fieldSlot fc)" by blast
    have "fst fc \<noteq> field"
    proof
      assume "fst fc = field"
      from only[OF a this] b fs show False by simp
    qed
    with a have "fc \<in> set ?rest" by simp
    with b show "\<exists>fc \<in> set ?rest. isl (fieldSlot fc)" by blast
  next
    assume "\<exists>fc \<in> set ?rest. isl (fieldSlot fc)"
    then show "\<exists>fc \<in> set w. isl (fieldSlot fc)" by auto
  qed
  then have fails: "isl (translateFilter (JObj w)) \<longleftrightarrow> isl (translateFilter (JObj ?rest))"
    using translateFilter_closed(1)[OF assms(2,3)] translateFilter_closed(1)[OF d2 o2]
    by simp
  show ?thesis
    using alone fails at s by (simp add: getQuery_where[OF assms(1)])
qed

theorem comparison_operators_compose_witness:
  "getQuery [''where'']
       [(''where'', JObj [(''name'', JObj [(''=='', JStr ''x'')]),
                          (''age'', JObj [(''>'', JNum 18), (''|<'', JNum 3), (''<='', JNum 65),
                                          (''>'', JNum 21)])])]
     = Inr [(''name'', JStr ''x''),
            (''age'', JObj [(''$gt'', JNum 21), (''$lte'', JNum 65)]),
            (''$or'', JArr [JObj [(''age'', JObj [(''$lt'', JNum 3)])]])]
   \<and> (\<exists>sub. map_of [(''name'', JStr ''x''),
                     (''age'', JObj [(''$gt'', JNum 21), (''$lte'', JNum 65)]),
                     (''$or'', JArr [JObj [(''age'', JObj [(''$lt'', JNum 3)])]])] ''age''
               = Some (JObj sub)
           \<and> map_of sub = map_of [(''$gt'', JNum 21), (''$lte'', JNum 65), (''$gt'', JNum 18)])
   \<and> getQuery [''where''] [(''age'', JObj [(''>'', JNum 18), (''<='', JNum 65)])]
     = Inr [(''age'', JObj [(''$gt'', JNum 18), (''$lte'', JNum 65)])]
   \<and> getQuery [''where''] [(''where'', JObj [(''constructor'', JObj [(''>'', JNum 18)])])]
     = Inl OutOfModel"
proof -
  let ?ops = "[(''>'', JNum 18), (''|<'', JNum 3), (''<='', JNum 65), (''>'', JNum 21)]"
  let ?w = "[(''name'', JObj [(''=='', JStr ''x'')]), (''age'', JObj ?ops)]"
  have h1: "''where'' \<in> set [''where'']" by simp
  have h2: "distinct (map fst ?w)" by simp
  have h3: "''$or'' \<notin> fst ` set ?w" by simp
  have h4: "(''age'', JObj ?ops) \<in> set ?w" by simp
  have h5: "''age'' \<notin> set objectPrototypeMembers" by (simp add: objectPrototypeMembers_def)
  have h6: "\<forall>ov \<in> set ?ops. \<not> eqOp (fst ov)" by (simp add: eqOp_def)
  have h7: "\<exists>ov \<in> set ?ops. nativeKey (fst ov) \<noteq> None" by (simp add: nativeKey_def)
  have e: "getQuery [''where''] [(''where'', JObj ?w)]
     = Inr [(''name'', JStr ''x''),
            (''age'', JObj [(''$gt'', JNum 21), (''$lte'', JNum 65)]),
            (''$or'', JArr [JObj [(''age'', JObj [(''$lt'', JNum 3)])]])]"
    by (simp add: getQuery_def normalizeQuery_def foldKeyword_def translateFilter_def
        translateField_def applyOp_def pushOr_def setSub_def readProp_def
        objectPrototypeMembers_def js_or_def getProp_def)
  have n: "rev (nativePairs ?ops) = [(''$gt'', JNum 21), (''$lte'', JNum 65), (''$gt'', JNum 18)]"
    by (simp add: nativePairs_def nativeKey_def)
  have t: "getQuery [''where''] [(''age'', JObj [(''>'', JNum 18), (''<='', JNum 65)])]
     = Inr [(''age'', JObj [(''$gt'', JNum 18), (''$lte'', JNum 65)])]"
    by (simp add: getQuery_def normalizeQuery_def foldKeyword_def translateFilter_def
        translateField_def applyOp_def pushOr_def setSub_def readProp_def
        objectPrototypeMembers_def js_or_def getProp_def)
  have c: "getQuery [''where''] [(''where'', JObj [(''constructor'', JObj [(''>'', JNum 18)])])]
     = Inl OutOfModel"
    by (simp add: getQuery_def normalizeQuery_def foldKeyword_def translateFilter_def
        translateField_def applyOp_def pushOr_def setSub_def readProp_def
        objectPrototypeMembers_def js_or_def getProp_def)
  from comparison_operators_compose [OF h1 h2 h3 h4 h5 h6 h7] e n t c
  show ?thesis by simp
qed

section \<open>Properties of the adapter methods\<close>

lemma bindIO_Inr: "m w = (Inr a, w') \<Longrightarrow> bindIO m f w = f a w'"
  by (simp add: bindIO_def)

lemma bindIO_Inl: "m w = (Inl e, w') \<Longrightarrow> bindIO m f w = (Inl e, w')"
  by (simp add: bindIO_def)

lemma getClient_ok: "client E = None \<Longrightarrow> getClient E w = (Inr (), w)"
  by (simp add: getClient_def ret_def)

lemma callHook_eq: "callHook E name m args w = (hook E name m args, (fst w, snd w @ [Hook name]))"
  by (simp add: callHook_def bindIO_def emit_def lift_def)

lemma afterHook_default:
  "hook E name m (args @ [response]) = Inr JUndefined \<Longrightarrow>
   afterHook E name m args response w = (Inr response, (fst w, snd w @ [Hook name]))"
  by (simp add: afterHook_def bindIO_def callHook_eq ret_def)

lemma find_not_found:
  assumes prep: "findPrep E opts = Inr (opts1, findOneOpts)"
    and conn: "client E = None"
    and before: "hook E ''beforeFind'' m
                   [ident, JObj (AList.update ''op'' (JStr ''beforeFind'') opts1)] = Inr x"
    and none: "nativeFindOne E db (collectionOf E m) [(idAttribute m, toObjectID E m ident)]
                 (JObj findOneOpts) = Inr found"
    and falsy: "\<not> truthy found"
    and after: "\<And>args. hook E ''afterFind'' m args = Inr JUndefined"
  shows "findRecord E m ident opts (db, log) =
           (Inr (respond E [(''data'', JUndefined), (''op'', JStr ''find''), (''found'', JNum 0)]
                   (AList.update ''op'' (JStr ''beforeFind'') opts1)),
            (db, log @ [Hook ''beforeFind'',
                        NativeFindOne (collectionOf E m) [(idAttribute m, toObjectID E m ident)]
                          (JObj findOneOpts),
                        Hook ''afterFind'']))"
  using none falsy
  by (simp add: findRecord_def prep findRun_def Let_def bindIO_def getClient_ok[OF conn] callHook_eq
      before emit_def findRespond_def afterHook_default[OF after] Response_def fillIn_def)



lemma foldE_first_fails:
  assumes "\<And>y s. y \<in> set ys \<Longrightarrow> f y s = Inr s" and "f x s = Inl e"
  shows "foldE f (ys @ x # zs) s = Inl e"
  using assms(1)
  by (induction ys) (simp_all add: assms(2))


lemma syncRel_out_of_scope: "\<not> inScope E opts d \<Longrightarrow> syncRel E opts records d u = Inr u"
  by (simp add: syncRel_def)




lemma findAllPrep_opts: "findAllPrep E query opts = Inr (opts1, fo, mq) \<Longrightarrow> opts1 = withDefault opts"
  by (auto simp: findAllPrep_def Let_def split: sum.splits)


lemmas io_defs = bindIO_def lift_def ret_def emit_def getClient_def callHook_def afterHook_def



lemmas mem_defs =
  memEnv_def memFind_def memFindOne_def memUpdate_def applySet_def docs_def docField_def
  matchDoc_def matchFlat_def matchCond_def isOperatorDoc_def opHolds_def numLess_def
  withNames_def

lemma findPrep_opts: "findPrep E opts = Inr (opts1, fo) \<Longrightarrow> opts1 = withDefault opts"
  by (auto simp: findPrep_def Let_def split: sum.splits)

lemma memEnv_hook: "hook memEnv name m args = Inr JUndefined"
  by (simp add: memEnv_def)

lemma memEnv_client: "client memEnv = None"
  by (simp add: memEnv_def)

lemma getProp_update_same: "getProp (AList.update k v ob) k = v"
  by (simp add: getProp_def AList.update_conv')

lemma getProp_update_other: "k' \<noteq> k \<Longrightarrow> getProp (AList.update k v ob) k' = getProp ob k'"
  by (simp add: getProp_def AList.update_conv')

lemma getOpt_update_other: "k' \<noteq> k \<Longrightarrow> getOpt E k' (AList.update k v opts) = getOpt E k' opts"
  by (simp add: getOpt_def getProp_update_other)

lemma getOpt_withDefault: "k \<noteq> ''with'' \<Longrightarrow> getOpt E k (withDefault opts) = getOpt E k opts"
  by (simp add: withDefault_def getOpt_update_other)

lemma translateOne_id:
  assumes "translateOne r = Inr r'"
  shows "idTranslated (idOf r) (idOf r')"
proof (cases r)
  case (JObj ob)
  show ?thesis
  proof (cases "truthy (getProp ob ''_id'')")
    case True
    with assms JObj obtain s where "toStringJS (getProp ob ''_id'') = Inr s"
      and "r' = JObj (AList.update ''_id'' (JStr s) ob)"
      by (auto simp: translateOne_def Let_def split: sum.splits)
    with True JObj show ?thesis
      by (simp add: idTranslated_def idOf_def getProp_update_same isOid_def)
  next
    case False
    with assms JObj have "r' = JObj (AList.update ''_id'' (getProp ob ''_id'') ob)"
      by (auto simp: translateOne_def Let_def)
    moreover have "\<not> isOid (getProp ob ''_id'')"
      using False by (cases "getProp ob ''_id''") (simp_all add: isOid_def)
    ultimately show ?thesis using False JObj
      by (simp add: idTranslated_def idOf_def getProp_update_same)
  qed
qed (use assms in \<open>simp_all add: translateOne_def\<close>)

lemma mapE_translateOne_ids:
  "mapE translateOne rs = Inr rs' \<Longrightarrow>
   list_all2 (\<lambda>r r'. idTranslated (idOf r) (idOf r')) rs rs'"
proof (induction rs arbitrary: rs')
  case Nil
  then show ?case by simp
next
  case (Cons r rs)
  then obtain y ys where "translateOne r = Inr y" "mapE translateOne rs = Inr ys" "rs' = y # ys"
    by (auto split: sum.splits)
  with Cons.IH[of ys] translateOne_id[of r y] show ?case by simp
qed

lemma foldE_syncRel_no_scope:
  "\<forall>d \<in> set ds. \<not> inScope E opts d \<Longrightarrow> foldE (syncRel E opts rs) ds () = Inr ()"
  by (induction ds) (simp_all add: syncRel_def)



lemma foldE_syncRelOne_no_scope:
  "\<forall>d \<in> set ds. \<not> inScope E opts d \<Longrightarrow> foldE (syncRelOne E m opts r) ds () = Inr ()"
  by (induction ds) (simp_all add: syncRelOne_def)

lemma runRelsOne_no_scope:
  "\<forall>d \<in> set ds. \<not> inScope E opts d \<Longrightarrow> runRelsOne E m ds opts r0 r w = (Inr r, w)"
  by (induction ds) simp_all

lemma translateId_single:
  assumes "translateId E found opts = Inr record" and "truthy (getOpt E ''translateId'' opts)"
  shows "idTranslated (idOf found) (idOf record)"
proof (cases "isObject found")
  case True
  have "translateOne found = Inr record"
    using assms True by (cases found) (auto simp: translateId_def)
  then show ?thesis by (rule translateOne_id)
next
  case False
  then show ?thesis using assms
    by (cases found)
       (auto simp: translateId_def translateIds_def idOf_def idTranslated_def isOid_def
          split: sum.splits)
qed

subsection \<open>The shape of a successful read\<close>


lemma setProp_idOf:
  "setProp item k v = Inr item' \<Longrightarrow> k \<noteq> ''_id'' \<Longrightarrow> idOf item' = idOf item"
  by (cases item) (auto simp: idOf_def getProp_def AList.update_conv')

lemma attachOne_idOf:
  "attachOne d lk items item = Inr item' \<Longrightarrow> localField d \<noteq> ''_id'' \<Longrightarrow>
   idOf item' = idOf item"
  by (auto simp: attachOne_def split: sum.splits jsval.splits dest: setProp_idOf)

lemma mapE_pres:
  "mapE f xs = Inr ys \<Longrightarrow> (\<And>x y. f x = Inr y \<Longrightarrow> g y = g x) \<Longrightarrow> map g ys = map g xs"
proof (induction xs arbitrary: ys)
  case Nil
  then show ?case by simp
next
  case (Cons x xs)
  from Cons.prems(1) obtain y ys' where a: "f x = Inr y" "mapE f xs = Inr ys'" "ys = y # ys'"
    by (auto split: sum.splits)
  from Cons.IH[OF a(2) Cons.prems(2)] Cons.prems(2)[OF a(1)] a(3) show ?case by simp
qed

lemma runRels_ids:
  assumes fields: "\<And>d. d \<in> set ds \<Longrightarrow> localField d \<noteq> ''_id''"
    and loaders: "\<And>name d v o' db v'. loadRelation E name m d v o' db = Inr v' \<Longrightarrow> keepsIds v v'"
  shows "runRels E m ds opts r0 rs w = (Inr rs', w') \<Longrightarrow> map idOf rs' = map idOf rs"
  using fields
proof (induction ds arbitrary: rs w)
  case Nil
  then show ?case by simp
next
  case (Cons d ds)
  have f: "localField d \<noteq> ''_id''" using Cons.prems(2) by simp
  have rest: "\<And>d'. d' \<in> set ds \<Longrightarrow> localField d' \<noteq> ''_id''" using Cons.prems(2) by simp
  note IH = Cons.IH[OF _ rest]
  show ?case
  proof (cases "inScope E opts d")
    case False
    with Cons.prems(1) IH show ?thesis by simp
  next
    case True
    show ?thesis
    proof (cases "branchOf d")
      case (BLoad name)
      from Cons.prems(1) True BLoad obtain rs1 where
        l: "loadRelation E name m d (JArr rs) (childOpts E opts d) (fst w) = Inr (JArr rs1)"
        and r: "runRels E m ds opts r0 rs1 w = (Inr rs', w')"
        by (auto split: sum.splits jsval.splits)
      from loaders[OF l] have "map idOf rs1 = map idOf rs" by (simp add: keepsIds_def)
      with IH[OF r] show ?thesis by simp
    next
      case (BLocalKeys lk)
      from Cons.prems(1) True BLocalKeys obtain items rs1 w1 where
        a: "mapE (attachOne d lk items) rs = Inr rs1"
        and r: "runRels E m ds opts r0 rs1 w1 = (Inr rs', w')"
        by (auto split: sum.splits prod.splits)
      have "map idOf rs1 = map idOf rs"
        by (rule mapE_pres[OF a]) (rule attachOne_idOf[OF _ f])
      with IH[OF r] show ?thesis by simp
    next
      case (BForeignKeys fks)
      with Cons.prems(1) True show ?thesis by simp
    next
      case BNone
      with Cons.prems(1) True IH show ?thesis by simp
    qed
  qed
qed

lemma runRelsOne_ids:
  assumes fields: "\<And>d. d \<in> set ds \<Longrightarrow> localField d \<noteq> ''_id''"
    and loaders: "\<And>name d v o' db v'. loadRelation E name m d v o' db = Inr v' \<Longrightarrow> keepsIds v v'"
  shows "runRelsOne E m ds opts r0 r w = (Inr r', w') \<Longrightarrow> idOf r' = idOf r"
  using fields
proof (induction ds arbitrary: r w)
  case Nil
  then show ?case by simp
next
  case (Cons d ds)
  have f: "localField d \<noteq> ''_id''" using Cons.prems(2) by simp
  have rest: "\<And>d'. d' \<in> set ds \<Longrightarrow> localField d' \<noteq> ''_id''" using Cons.prems(2) by simp
  note IH = Cons.IH[OF _ rest]
  show ?case
  proof (cases "inScope E opts d")
    case False
    with Cons.prems(1) IH show ?thesis by simp
  next
    case True
    show ?thesis
    proof (cases "branchOf d")
      case (BLoad name)
      from Cons.prems(1) True BLoad obtain r1 where
        l: "loadRelation E name m d r (childOpts E opts d) (fst w) = Inr r1"
        and rr: "runRelsOne E m ds opts r0 r1 w = (Inr r', w')"
        by (auto split: sum.splits)
      from loaders[OF l] have "idOf r1 = idOf r" by (simp add: keepsIds_def)
      with IH[OF rr] show ?thesis by simp
    next
      case BNone
      with Cons.prems(1) True IH show ?thesis by simp
    next
      case (BLocalKeys lk)
      from Cons.prems(1) True BLocalKeys
      have "(\<exists>items r1 w1. setProp r (localField d) items = Inr r1
                \<and> runRelsOne E m ds opts r0 r1 w1 = (Inr r', w'))
          \<or> runRelsOne E m ds opts r0 r w = (Inr r', w')"
        by (auto split: sum.splits prod.splits option.splits)
      then show ?thesis using IH setProp_idOf[OF _ f] by (metis)
    next
      case (BForeignKeys fks)
      from Cons.prems(1) True BForeignKeys
      have "(\<exists>items r1 w1. setProp r (localField d) items = Inr r1
                \<and> runRelsOne E m ds opts r0 r1 w1 = (Inr r', w'))
          \<or> runRelsOne E m ds opts r0 r w = (Inr r', w')"
        by (auto split: sum.splits prod.splits option.splits)
      then show ?thesis using IH setProp_idOf[OF _ f] by (metis)
    qed
  qed
qed

lemma payloadOf_respond:
  assumes "getOpt E ''raw'' opts' = getOpt E ''raw'' opts"
  shows "payloadOf E opts (respond E (AList.update ''found'' n (Response data [] op)) opts') = data"
  using assms
  by (simp add: payloadOf_def respond_def Response_def fillIn_def getProp_def)

lemma findAll_result:
  assumes after: "\<And>args. hook E ''afterFindAll'' m args = Inr JUndefined"
    and ok: "findAll E m query opts w = (Inr out, w')"
  shows "\<exists>fo mq rs rs' rs'' w1 w2.
            findAllPrep E query opts = Inr (withDefault opts, fo, mq)
          \<and> nativeFind E (fst w) (collectionOf E m) mq (JObj fo) = Inr rs
          \<and> translateIds E rs (AList.update ''op'' (JStr ''beforeFindAll'') (withDefault opts)) = Inr rs'
          \<and> runRels E m (relationList m) (AList.update ''op'' (JStr ''beforeFindAll'') (withDefault opts))
               rs' rs' w1 = (Inr rs'', w2)
          \<and> w1 = (fst w, snd w @ [Hook ''beforeFindAll'', NativeFind (collectionOf E m) mq (JObj fo)])
          \<and> w' = (fst w2, snd w2 @ [Hook ''afterFindAll''])
          \<and> out = respond E (AList.update ''found'' (JNum (int (length rs'')))
                                (Response (JArr rs'') [] ''findAll''))
                     (AList.update ''op'' (JStr ''beforeFindAll'') (withDefault opts))"
proof -
  from ok obtain fo mq where prep: "findAllPrep E query opts = Inr (withDefault opts, fo, mq)"
    by (cases "findAllPrep E query opts")
       (auto simp: findAll_def lift_def dest: findAllPrep_opts)
  from ok prep show ?thesis
    by (auto simp: findAll_def findAllRead_def findAllRespond_def io_defs
        afterHook_default[OF after] after
        split: sum.splits prod.splits option.splits if_splits)
qed


lemma find_result:
  assumes after: "\<And>args. hook E ''afterFind'' m args = Inr JUndefined"
    and ok: "findRecord E m ident opts w = (Inr out, w')"
  shows "\<exists>fo found.
            nativeFindOne E (fst w) (collectionOf E m) [(idAttribute m, toObjectID E m ident)]
              (JObj fo) = Inr found
          \<and> (truthy found \<longrightarrow>
               (\<exists>r r' w1 w2 n.
                   translateId E found (AList.update ''op'' (JStr ''beforeFind'') (withDefault opts))
                     = Inr r
                 \<and> runRelsOne E m (relationList m)
                      (AList.update ''op'' (JStr ''beforeFind'') (withDefault opts))
                      r r w1 = (Inr r', w2)
                 \<and> out = respond E (AList.update ''found'' n (Response r' [] ''find''))
                           (AList.update ''op'' (JStr ''beforeFind'') (withDefault opts))))
          \<and> (\<not> truthy found \<longrightarrow>
               out = respond E (AList.update ''found'' (JNum 0)
                                      (Response JUndefined [] ''find''))
                           (AList.update ''op'' (JStr ''beforeFind'') (withDefault opts)))"
proof -
  from ok obtain fo where prep: "findPrep E opts = Inr (withDefault opts, fo)"
    by (cases "findPrep E opts")
       (auto simp: findRecord_def lift_def findPrep_def Let_def split: sum.splits)
  let ?o = "AList.update ''op'' (JStr ''beforeFind'') (withDefault opts)"
  let ?q = "[(idAttribute m, toObjectID E m ident)]"
  let ?w1 = "(fst w, snd w @ [Hook ''beforeFind'',
                              NativeFindOne (collectionOf E m) ?q (JObj fo)])"
  from ok prep have run: "findRun E m ident (withDefault opts) fo w = (Inr out, w')"
    by (simp add: findRecord_def)
  note defs = findRun_def Let_def bindIO_def lift_def ret_def emit_def getClient_def callHook_def
  have c: "client E = None"
    using run by (cases "client E") (simp_all add: defs)
  obtain x where h: "hook E ''beforeFind'' m [ident, JObj ?o] = Inr x"
    using run c by (cases "hook E ''beforeFind'' m [ident, JObj ?o]") (simp_all add: defs)
  obtain found where nat: "nativeFindOne E (fst w) (collectionOf E m) ?q (JObj fo) = Inr found"
    using run c h
    by (cases "nativeFindOne E (fst w) (collectionOf E m) ?q (JObj fo)") (simp_all add: defs)
  have resp: "findRespond E m ident ?o r w2 = (Inr out, w') \<Longrightarrow>
              out = respond E (AList.update ''found'' (JNum (if truthy r then 1 else 0))
                                 (Response r [] ''find'')) ?o" for r w2
    by (simp add: findRespond_def afterHook_default[OF after])
  show ?thesis
  proof (cases "truthy found")
    case False
    with run c h nat have "findRespond E m ident ?o JUndefined ?w1 = (Inr out, w')"
      by (simp add: defs)
    from resp[OF this] have "out = respond E (AList.update ''found'' (JNum 0)
                                      (Response JUndefined [] ''find'')) ?o" by simp
    with nat False show ?thesis by blast
  next
    case True
    obtain r where tr: "translateId E found ?o = Inr r"
      using run c h nat True by (cases "translateId E found ?o") (simp_all add: defs)
    obtain u where sy: "foldE (syncRelOne E m ?o r) (relationList m) () = Inr u"
      using run c h nat True tr
      by (cases "foldE (syncRelOne E m ?o r) (relationList m) ()") (simp_all add: defs)
    obtain res w2 where rr0: "runRelsOne E m (relationList m) ?o r r ?w1 = (res, w2)"
      by (cases "runRelsOne E m (relationList m) ?o r r ?w1")
    obtain r' where res: "res = Inr r'"
      using run c h nat True tr sy rr0 by (cases res) (simp_all add: defs)
    have fr: "findRespond E m ident ?o r' w2 = (Inr out, w')"
      using run c h nat True tr sy rr0 res by (simp add: defs)
    from resp[OF fr] tr rr0 res
    have "\<exists>r r' w1 w2 n. translateId E found ?o = Inr r
                 \<and> runRelsOne E m (relationList m) ?o r r w1 = (Inr r', w2)
                 \<and> out = respond E (AList.update ''found'' n (Response r' [] ''find'')) ?o"
      by blast
    with nat True show ?thesis by blast
  qed
qed

lemma list_all2_ids:
  assumes "list_all2 (\<lambda>r r'. P (idOf r) (idOf r')) rs rs'" and "map idOf rs'' = map idOf rs'"
  shows "list_all2 (\<lambda>r r'. P (idOf r) (idOf r')) rs rs''"
proof -
  have l: "length rs'' = length rs'" using assms(2) by (rule map_eq_imp_length_eq)
  have n: "idOf (rs'' ! i) = idOf (rs' ! i)" if "i < length rs'" for i
    using assms(2) that l by (metis nth_map)
  show ?thesis
    using assms(1) l n by (auto simp: list_all2_conv_all_nth)
qed

lemma filterE_subset: "filterE p xs = Inr ys \<Longrightarrow> set ys \<subseteq> set xs"
proof (induction xs arbitrary: ys)
  case Nil
  then show ?case by simp
next
  case (Cons x xs)
  from Cons.prems obtain b ys' where "filterE p xs = Inr ys'" "ys = (if b then x # ys' else ys')"
    by (auto split: sum.splits)
  with Cons.IH[of ys'] show ?case by auto
qed

lemma attachOne_attached:
  assumes "attachOne d lk (JArr items) item = Inr item'"
  shows "\<exists>ob att. item' = JObj ob \<and> map_of ob (localField d) = Some (JArr att)
           \<and> set att \<subseteq> set items"
proof -
  from assms obtain ks att where
    f: "filterE (referenced (idAttribute (getRelation d)) ks) items = Inr att"
    and s: "setProp item (localField d) (JArr att) = Inr item'"
    by (auto simp: attachOne_def split: sum.splits)
  from s obtain ob0 where "item = JObj ob0"
    and "item' = JObj (AList.update (localField d) (JArr att) ob0)"
    by (cases item) auto
  with filterE_subset[OF f] show ?thesis by (auto simp: AList.update_conv')
qed

lemma getOpt_before:
  "k \<noteq> ''op'' \<Longrightarrow> k \<noteq> ''with'' \<Longrightarrow>
   getOpt E k (AList.update ''op'' v (withDefault opts)) = getOpt E k opts"
  by (simp add: getOpt_update_other getOpt_withDefault)


subsection \<open>Reads\<close>

text \<open>
  C10. When the driver finds no record (it yields a falsy value), the connection is
  up, the \<^verbatim>\<open>beforeFind\<close> hook resolves and the \<^verbatim>\<open>afterFind\<close> hook returns
  \<^verbatim>\<open>undefined\<close>, find resolves: the response it builds has an undefined payload and
  \<^verbatim>\<open>found = 0\<close> (it is returned as it is when \<^verbatim>\<open>raw\<close> is set, and its payload
  otherwise), the store is unchanged, and the only driver call is the one \<^verbatim>\<open>findOne\<close>,
  whatever relations the mapper has in scope.
\<close>

theorem find_no_match:
  assumes prep: "findPrep E opts = Inr (opts1, findOneOpts)"
    and conn: "client E = None"
    and before: "hook E ''beforeFind'' m
                   [ident, JObj (AList.update ''op'' (JStr ''beforeFind'') opts1)] = Inr x"
    and none: "nativeFindOne E db (collectionOf E m) [(idAttribute m, toObjectID E m ident)]
                 (JObj findOneOpts) = Inr found"
    and falsy: "\<not> truthy found"
    and after: "\<And>args. hook E ''afterFind'' m args = Inr JUndefined"
  shows "findRecord E m ident opts (db, log) =
           (Inr (if truthy (getOpt E ''raw'' opts)
                 then JObj [(''data'', JUndefined), (''op'', JStr ''find''), (''found'', JNum 0)]
                 else JUndefined),
            (db, log @ [Hook ''beforeFind'',
                        NativeFindOne (collectionOf E m) [(idAttribute m, toObjectID E m ident)]
                          (JObj findOneOpts),
                        Hook ''afterFind'']))"
proof -
  have "getOpt E ''raw'' (AList.update ''op'' (JStr ''beforeFind'') opts1) = getOpt E ''raw'' opts"
    using findPrep_opts[OF prep] by (simp add: getOpt_update_other getOpt_withDefault)
  then show ?thesis
    using find_not_found[OF prep conn before none falsy after, of log]
    by (simp add: respond_def getProp_def)
qed

theorem find_no_match_witness:
  "findRecord memEnv userMapper (JStr ''3123456789abcdef01234567'') [(''raw'', JBool True)] (db4, [])
   = (Inr (JObj [(''data'', JUndefined), (''op'', JStr ''find''), (''found'', JNum 0)]),
      (db4, [Hook ''beforeFind'',
             NativeFindOne ''user'' [(''_id'', JObjectID ''3123456789abcdef01234567'')]
               (JObj [(''fields'', JObj [])]),
             Hook ''afterFind'']))"
proof -
  have prep: "findPrep memEnv [(''raw'', JBool True)]
                = Inr ([(''raw'', JBool True), (''with'', JArr [])], [(''fields'', JObj [])])"
    by code_simp
  have before: "hook memEnv ''beforeFind'' userMapper
                  [JStr ''3123456789abcdef01234567'',
                   JObj (AList.update ''op'' (JStr ''beforeFind'')
                           [(''raw'', JBool True), (''with'', JArr [])])] = Inr JUndefined"
    by (rule memEnv_hook)
  have none: "nativeFindOne memEnv db4 (collectionOf memEnv userMapper)
                [(idAttribute userMapper, toObjectID memEnv userMapper (JStr ''3123456789abcdef01234567''))]
                (JObj [(''fields'', JObj [])]) = Inr JNull"
    by code_simp
  have falsy: "\<not> truthy JNull" by simp
  have c: "collectionOf memEnv userMapper = ''user''"
    "idAttribute userMapper = ''_id''"
    "toObjectID memEnv userMapper (JStr ''3123456789abcdef01234567'')
       = JObjectID ''3123456789abcdef01234567''"
    "truthy (getOpt memEnv ''raw'' [(''raw'', JBool True)])"
    by code_simp+
  from find_no_match [OF prep memEnv_client before none falsy memEnv_hook, of "[]"]
  show ?thesis by (simp add: c)
qed




text \<open>
  C9. as stated, fails: a stored identifier that is falsy, such as the number 0,
  is returned as it is, and is not a string.
\<close>

theorem falsy_identifier_counterexample:
  "findRecord memEnv userMapper (JNum 0) []
     ([(''user'', [JObj [(''_id'', JNum 0), (''age'', JNum 31)]])], [])
   = (Inr (JObj [(''_id'', JNum 0), (''age'', JNum 31)]),
      ([(''user'', [JObj [(''_id'', JNum 0), (''age'', JNum 31)]])],
       [Hook ''beforeFind'',
        NativeFindOne ''user'' [(''_id'', JNum 0)] (JObj [(''fields'', JObj [])]),
        Hook ''afterFind'']))
   \<and> truthy (getOpt memEnv ''translateId'' [])
   \<and> idAttribute userMapper = ''_id''
   \<and> \<not> isString (JNum 0)"
  by code_simp

text \<open>
  C9, amended. Take a call for which \<^verbatim>\<open>translateId\<close> is enabled, on a mapper whose
  after-hooks return \<^verbatim>\<open>undefined\<close>, none of whose relations is stored under \<^verbatim>\<open>_id\<close>,
  and whose relation loaders (js-data-adapter) return the records with the identifiers
  they were given. Then every record that \<^verbatim>\<open>_translateId\<close> hands back, every record
  of the payload of findAll and the record of the payload of find (the \<^verbatim>\<open>data\<close> of the
  response when \<^verbatim>\<open>raw\<close> is set) has an \<^verbatim>\<open>_id\<close> that is not an ObjectID, is a string
  whenever the stored \<^verbatim>\<open>_id\<close> is truthy, and is the stored value otherwise, whatever
  relations are in scope. The reads that relationship resolution triggers (lines 531, 543
  and 629) are calls of findAll on the related mapper: the statement applies to them with
  that mapper and the options of the relation, and the records that findAll attaches to a
  parent are records of the payload of that call.
\<close>

theorem identifiers_translated:
  assumes en: "truthy (getOpt E ''translateId'' opts)"
    and afterAll: "\<And>args. hook E ''afterFindAll'' m args = Inr JUndefined"
    and afterOne: "\<And>args. hook E ''afterFind'' m args = Inr JUndefined"
    and fields0: "\<forall>d \<in> set (relationList m). localField d \<noteq> ''_id''"
    and loaders0: "\<forall>name d v o' db v'.
                     loadRelation E name m d v o' db = Inr v' \<longrightarrow> keepsIds v v'"
  shows "(\<forall>rs rs'. translateIds E rs opts = Inr rs' \<longrightarrow>
            list_all2 (\<lambda>r r'. idTranslated (idOf r) (idOf r')) rs rs')
       \<and> (\<forall>query w out w'. findAll E m query opts w = (Inr out, w') \<longrightarrow>
            (\<exists>fo mq rs rs'. nativeFind E (fst w) (collectionOf E m) mq (JObj fo) = Inr rs
               \<and> payloadOf E opts out = JArr rs'
               \<and> list_all2 (\<lambda>r r'. idTranslated (idOf r) (idOf r')) rs rs'))
       \<and> (\<forall>ident w out w'. findRecord E m ident opts w = (Inr out, w') \<longrightarrow>
            (\<exists>fo found. nativeFindOne E (fst w) (collectionOf E m)
                           [(idAttribute m, toObjectID E m ident)] (JObj fo) = Inr found
               \<and> (if truthy found then idTranslated (idOf found) (idOf (payloadOf E opts out))
                   else payloadOf E opts out = JUndefined)))
       \<and> (\<forall>d lk items item item'. attachOne d lk (JArr items) item = Inr item' \<longrightarrow>
            (\<exists>ob att. item' = JObj ob \<and> map_of ob (localField d) = Some (JArr att)
               \<and> set att \<subseteq> set items))"
proof -
  have fields: "\<And>d. d \<in> set (relationList m) \<Longrightarrow> localField d \<noteq> ''_id''"
    using fields0 by blast
  have loaders: "\<And>name d v o' db v'.
                    loadRelation E name m d v o' db = Inr v' \<Longrightarrow> keepsIds v v'"
    using loaders0 by blast
  have a: "list_all2 (\<lambda>r r'. idTranslated (idOf r) (idOf r')) rs rs'"
    if "translateIds E rs opts = Inr rs'" for rs rs'
    using that en by (simp add: translateIds_def mapE_translateOne_ids)
  have b: "\<exists>fo mq rs rs'. nativeFind E (fst w) (collectionOf E m) mq (JObj fo) = Inr rs
               \<and> payloadOf E opts out = JArr rs'
               \<and> list_all2 (\<lambda>r r'. idTranslated (idOf r) (idOf r')) rs rs'"
    if ok: "findAll E m query opts w = (Inr out, w')" for query w out w'
  proof -
    let ?o = "AList.update ''op'' (JStr ''beforeFindAll'') (withDefault opts)"
    from findAll_result[OF afterAll ok] obtain fo mq rs rs' rs'' w1 w2 where
      nat: "nativeFind E (fst w) (collectionOf E m) mq (JObj fo) = Inr rs"
      and tr: "translateIds E rs ?o = Inr rs'"
      and rr: "runRels E m (relationList m) ?o rs' rs' w1 = (Inr rs'', w2)"
      and out: "out = respond E (AList.update ''found'' (JNum (int (length rs'')))
                                (Response (JArr rs'') [] ''findAll'')) ?o"
      by blast
    have en': "truthy (getOpt E ''translateId'' ?o)" using en by (simp add: getOpt_before)
    have t: "list_all2 (\<lambda>r r'. idTranslated (idOf r) (idOf r')) rs rs'"
      using tr en' by (simp add: translateIds_def mapE_translateOne_ids)
    have ids: "map idOf rs'' = map idOf rs'"
      by (rule runRels_ids[OF fields loaders rr])
    have p: "payloadOf E opts out = JArr rs''"
      unfolding out by (rule payloadOf_respond) (simp add: getOpt_before)
    from nat p list_all2_ids[OF t ids] show ?thesis by blast
  qed
  have c: "\<exists>fo found. nativeFindOne E (fst w) (collectionOf E m)
                           [(idAttribute m, toObjectID E m ident)] (JObj fo) = Inr found
               \<and> (if truthy found then idTranslated (idOf found) (idOf (payloadOf E opts out))
                   else payloadOf E opts out = JUndefined)"
    if ok: "findRecord E m ident opts w = (Inr out, w')" for ident w out w'
  proof -
    let ?o = "AList.update ''op'' (JStr ''beforeFind'') (withDefault opts)"
    have en': "truthy (getOpt E ''translateId'' ?o)" using en by (simp add: getOpt_before)
    have raw': "getOpt E ''raw'' ?o = getOpt E ''raw'' opts" by (simp add: getOpt_before)
    from find_result[OF afterOne ok] obtain fo found where
      nat: "nativeFindOne E (fst w) (collectionOf E m) [(idAttribute m, toObjectID E m ident)]
              (JObj fo) = Inr found"
      and res: "truthy found \<longrightarrow>
               (\<exists>r r' w1 w2 n.
                   translateId E found ?o = Inr r
                 \<and> runRelsOne E m (relationList m) ?o r r w1 = (Inr r', w2)
                 \<and> out = respond E (AList.update ''found'' n (Response r' [] ''find'')) ?o)"
      and res0: "\<not> truthy found \<longrightarrow>
              out = respond E (AList.update ''found'' (JNum 0)
                                      (Response JUndefined [] ''find'')) ?o"
      by blast
    show ?thesis
    proof (cases "truthy found")
      case True
      with res obtain rec1 r' w1 w2 n where
        tr: "translateId E found ?o = Inr rec1"
        and rr: "runRelsOne E m (relationList m) ?o rec1 rec1 w1 = (Inr r', w2)"
        and out: "out = respond E (AList.update ''found'' n (Response r' [] ''find'')) ?o"
        by auto
      have "idOf r' = idOf rec1" by (rule runRelsOne_ids[OF fields loaders rr])
      moreover have "payloadOf E opts out = r'"
        unfolding out by (rule payloadOf_respond[OF raw'])
      moreover have "idTranslated (idOf found) (idOf rec1)"
        by (rule translateId_single[OF tr en'])
      ultimately show ?thesis using nat True by auto
    next
      case False
      with res0 have "payloadOf E opts out = JUndefined"
        by (simp add: payloadOf_respond[OF raw'])
      with nat False show ?thesis by auto
    qed
  qed
  show ?thesis using a b c attachOne_attached by blast
qed


theorem identifiers_translated_witness:
  "findAll memEnv noteMapper [] [(''with'', JArr [JStr ''labels''])] (db8, [])
     = (Inr (JArr
            [JObj [(''_id'', JStr ''a123456789abcdef01234567''),
                   (''labelIds'', JArr [JStr ''0123456789abcdef01234567'', JNull,
                                       JStr ''1123456789abcdef01234567'']),
                   (''labels'', JArr [JObj [(''_id'', JStr ''0123456789abcdef01234567'')],
                                      JObj [(''_id'', JStr ''1123456789abcdef01234567'')]])],
             JObj [(''_id'', JStr ''b123456789abcdef01234567''),
                   (''labelIds'', JArr [JStr ''1123456789abcdef01234567'', JNum 0,
                                       JStr '''', JStr ''misc'']),
                   (''labels'', JArr [JObj [(''_id'', JStr ''1123456789abcdef01234567'')],
                                      JObj [(''_id'', JStr ''misc'')]])]]),
          (db8,
             [Hook ''beforeFindAll'',
              NativeFind ''note'' [] (JObj [(''fields'', JObj [])]),
              Hook ''beforeFindAll'',
              NativeFind ''label''
                [(''_id'', JObj [(''$in'', JArr [JObjectID ''0123456789abcdef01234567'',
                                                JObjectID ''1123456789abcdef01234567'',
                                                JStr ''misc''])])]
                (JObj [(''fields'', JObj [])]),
              Hook ''afterFindAll'',
              Hook ''afterFindAll'']))
   \<and> (\<exists>fo mq rs rs'.
          nativeFind memEnv db8 ''note'' mq (JObj fo) = Inr rs
        \<and> rs' = [JObj [(''_id'', JStr ''a123456789abcdef01234567''),
                   (''labelIds'', JArr [JStr ''0123456789abcdef01234567'', JNull,
                                       JStr ''1123456789abcdef01234567'']),
                   (''labels'', JArr [JObj [(''_id'', JStr ''0123456789abcdef01234567'')],
                                      JObj [(''_id'', JStr ''1123456789abcdef01234567'')]])],
                  JObj [(''_id'', JStr ''b123456789abcdef01234567''),
                   (''labelIds'', JArr [JStr ''1123456789abcdef01234567'', JNum 0,
                                       JStr '''', JStr ''misc'']),
                   (''labels'', JArr [JObj [(''_id'', JStr ''1123456789abcdef01234567'')],
                                      JObj [(''_id'', JStr ''misc'')]])]]
        \<and> list_all2 (\<lambda>r r'. idTranslated (idOf r) (idOf r')) rs rs')
   \<and> findRecord memEnv noteMapper (JStr ''a123456789abcdef01234567'')
        [(''with'', JArr [JStr ''labels''])] (db8, [])
     = (Inr (JObj [(''_id'', JStr ''a123456789abcdef01234567''),
                   (''labelIds'', JArr [JStr ''0123456789abcdef01234567'', JNull,
                                       JStr ''1123456789abcdef01234567'']),
                   (''labels'', JArr [JObj [(''_id'', JStr ''0123456789abcdef01234567'')],
                                      JObj [(''_id'', JStr ''1123456789abcdef01234567'')]])]),
        (db8,
           [Hook ''beforeFind'',
            NativeFindOne ''note'' [(''_id'', JObjectID ''a123456789abcdef01234567'')]
              (JObj [(''fields'', JObj [])]),
            Hook ''beforeFindAll'',
            NativeFind ''label''
              [(''_id'', JObj [(''$in'', JArr [JObjectID ''0123456789abcdef01234567'',
                                              JObjectID ''1123456789abcdef01234567''])])]
              (JObj [(''fields'', JObj [])]),
            Hook ''afterFindAll'', Hook ''afterFind'']))
   \<and> (\<exists>fo found.
         nativeFindOne memEnv db8 ''note'' [(''_id'', JObjectID ''a123456789abcdef01234567'')]
           (JObj fo) = Inr found
       \<and> truthy found
       \<and> idTranslated (idOf found) (JStr ''a123456789abcdef01234567''))"
proof -
  let ?opts = "[(''with'', JArr [JStr ''labels''])]"
  let ?r1 = "JObj [(''_id'', JStr ''a123456789abcdef01234567''),
                   (''labelIds'', JArr [JStr ''0123456789abcdef01234567'', JNull,
                                       JStr ''1123456789abcdef01234567'']),
                   (''labels'', JArr [JObj [(''_id'', JStr ''0123456789abcdef01234567'')],
                                      JObj [(''_id'', JStr ''1123456789abcdef01234567'')]])]"
  let ?r2 = "JObj [(''_id'', JStr ''b123456789abcdef01234567''),
                   (''labelIds'', JArr [JStr ''1123456789abcdef01234567'', JNum 0,
                                       JStr '''', JStr ''misc'']),
                   (''labels'', JArr [JObj [(''_id'', JStr ''1123456789abcdef01234567'')],
                                      JObj [(''_id'', JStr ''misc'')]])]"
  let ?w1 = "(db8,
             [Hook ''beforeFindAll'',
              NativeFind ''note'' [] (JObj [(''fields'', JObj [])]),
              Hook ''beforeFindAll'',
              NativeFind ''label''
                [(''_id'', JObj [(''$in'', JArr [JObjectID ''0123456789abcdef01234567'',
                                                JObjectID ''1123456789abcdef01234567'',
                                                JStr ''misc''])])]
                (JObj [(''fields'', JObj [])]),
              Hook ''afterFindAll'',
              Hook ''afterFindAll''])"
  let ?w2 = "(db8,
           [Hook ''beforeFind'',
            NativeFindOne ''note'' [(''_id'', JObjectID ''a123456789abcdef01234567'')]
              (JObj [(''fields'', JObj [])]),
            Hook ''beforeFindAll'',
            NativeFind ''label''
              [(''_id'', JObj [(''$in'', JArr [JObjectID ''0123456789abcdef01234567'',
                                              JObjectID ''1123456789abcdef01234567''])])]
              (JObj [(''fields'', JObj [])]),
            Hook ''afterFindAll'', Hook ''afterFind''])"
  have ev1: "findAll memEnv noteMapper [] ?opts (db8, []) = (Inr (JArr [?r1, ?r2]), ?w1)"
    by code_simp
  have ev2: "findRecord memEnv noteMapper (JStr ''a123456789abcdef01234567'') ?opts (db8, [])
               = (Inr ?r1, ?w2)"
    by code_simp
  have en: "truthy (getOpt memEnv ''translateId'' ?opts)" by code_simp
  have raw: "\<not> truthy (getOpt memEnv ''raw'' ?opts)" by code_simp
  have fields: "\<forall>d \<in> set (relationList noteMapper). localField d \<noteq> ''_id''"
    by (simp add: noteMapper_def)
  have loaders: "\<forall>name d v o' db v'.
                    loadRelation memEnv name noteMapper d v o' db = Inr v' \<longrightarrow> keepsIds v v'"
    by (simp add: memEnv_def)
  have c: "collectionOf memEnv noteMapper = ''note''" "idAttribute noteMapper = ''_id''"
    "toObjectID memEnv noteMapper (JStr ''a123456789abcdef01234567'')
       = JObjectID ''a123456789abcdef01234567''"
    "idOf ?r1 = JStr ''a123456789abcdef01234567''"
    by code_simp+
  have p: "payloadOf memEnv ?opts out = out" for out
    using raw by (simp add: payloadOf_def)
  note t = identifiers_translated [where E = memEnv and m = noteMapper and opts = ?opts,
      OF en memEnv_hook memEnv_hook fields loaders]
  from t ev1 have "\<exists>fo mq rs rs'.
        nativeFind memEnv (fst (db8, [] :: event list)) (collectionOf memEnv noteMapper) mq (JObj fo)
          = Inr rs
      \<and> payloadOf memEnv ?opts (JArr [?r1, ?r2]) = JArr rs'
      \<and> list_all2 (\<lambda>r r'. idTranslated (idOf r) (idOf r')) rs rs'"
    by blast
  then have a: "\<exists>fo mq rs rs'.
          nativeFind memEnv db8 ''note'' mq (JObj fo) = Inr rs
        \<and> rs' = [?r1, ?r2]
        \<and> list_all2 (\<lambda>r r'. idTranslated (idOf r) (idOf r')) rs rs'"
    unfolding p c by auto
  from t ev2 have "\<exists>fo found.
        nativeFindOne memEnv (fst (db8, [] :: event list)) (collectionOf memEnv noteMapper)
          [(idAttribute noteMapper,
            toObjectID memEnv noteMapper (JStr ''a123456789abcdef01234567''))] (JObj fo)
          = Inr found
      \<and> (if truthy found then idTranslated (idOf found) (idOf (payloadOf memEnv ?opts ?r1))
          else payloadOf memEnv ?opts ?r1 = JUndefined)"
    by blast
  then have b: "\<exists>fo found.
         nativeFindOne memEnv db8 ''note'' [(''_id'', JObjectID ''a123456789abcdef01234567'')]
           (JObj fo) = Inr found
       \<and> truthy found
       \<and> idTranslated (idOf found) (JStr ''a123456789abcdef01234567'')"
    unfolding p c by (auto split: if_splits)
  from ev1 a ev2 b show ?thesis by blast
qed

subsection \<open>Updates\<close>

text \<open>
  C5. When the pre-read of update finds no record (the connection is up, the
  \<^verbatim>\<open>beforeFind\<close> hook resolves, the \<^verbatim>\<open>afterFind\<close> hook returns \<^verbatim>\<open>undefined\<close>),
  update fails with \<^verbatim>\<open>Error('Not Found')\<close>; the store is unchanged and the log holds
  the pre-read only: no \<^verbatim>\<open>beforeUpdate\<close> hook and no write.
\<close>

theorem update_missing_record:
  assumes cfg: "getProp (config E) ''findOneOpts'' = JObj fo"
    and conn: "client E = None"
    and before: "hook E ''beforeFind'' m
                   [ident, JObj [(''raw'', JBool False), (''with'', JArr []),
                                 (''op'', JStr ''beforeFind'')]] = Inr x"
    and none: "nativeFindOne E db (collectionOf E m) [(idAttribute m, toObjectID E m ident)]
                 (JObj (fieldsDefault fo)) = Inr found"
    and falsy: "\<not> truthy found"
    and after: "\<And>args. hook E ''afterFind'' m args = Inr JUndefined"
  shows "update E m ident props opts (db, log) =
           (Inl (Error ''Not Found''),
            (db, log @ [Hook ''beforeFind'',
                        NativeFindOne (collectionOf E m) [(idAttribute m, toObjectID E m ident)]
                          (JObj (fieldsDefault fo)),
                        Hook ''afterFind'']))"
proof -
  have prep: "findPrep E [(''raw'', JBool False)]
                = Inr ([(''raw'', JBool False), (''with'', JArr [])], fieldsDefault fo)"
    by (simp add: findPrep_def withDefault_def getProp_def getOpt_def cfg[unfolded getProp_def]
        asObject_def)
  have b: "hook E ''beforeFind'' m
             [ident, JObj (AList.update ''op'' (JStr ''beforeFind'')
                             [(''raw'', JBool False), (''with'', JArr [])])] = Inr x"
    using before by simp
  have f: "findRecord E m ident [(''raw'', JBool False)] (db, log) =
           (Inr JUndefined,
            (db, log @ [Hook ''beforeFind'',
                        NativeFindOne (collectionOf E m) [(idAttribute m, toObjectID E m ident)]
                          (JObj (fieldsDefault fo)),
                        Hook ''afterFind'']))"
    using find_not_found[OF prep conn b none falsy after, of log]
    by (simp add: respond_def getOpt_def getProp_def)
  show ?thesis
    by (simp add: update_def Let_def bindIO_def f lift_def)
qed


theorem update_missing_record_witness:
  "update memEnv userMapper (JStr ''3123456789abcdef01234567'') (JObj [(''name'', JStr ''x'')]) []
     (db4, [])
   = (Inl (Error ''Not Found''),
      (db4, [Hook ''beforeFind'',
             NativeFindOne ''user'' [(''_id'', JObjectID ''3123456789abcdef01234567'')]
               (JObj [(''fields'', JObj [])]),
             Hook ''afterFind'']))"
proof -
  have cfg: "getProp (config memEnv) ''findOneOpts'' = JObj []" by code_simp
  have before: "hook memEnv ''beforeFind'' userMapper
                  [JStr ''3123456789abcdef01234567'',
                   JObj [(''raw'', JBool False), (''with'', JArr []),
                         (''op'', JStr ''beforeFind'')]] = Inr JUndefined"
    by (rule memEnv_hook)
  have none: "nativeFindOne memEnv db4 (collectionOf memEnv userMapper)
                [(idAttribute userMapper, toObjectID memEnv userMapper (JStr ''3123456789abcdef01234567''))]
                (JObj (fieldsDefault [])) = Inr JNull"
    by code_simp
  have falsy: "\<not> truthy JNull" by simp
  have c: "collectionOf memEnv userMapper = ''user''"
    "idAttribute userMapper = ''_id''"
    "toObjectID memEnv userMapper (JStr ''3123456789abcdef01234567'')
       = JObjectID ''3123456789abcdef01234567''"
    "fieldsDefault [] = [(''fields'', JObj [])]"
    by code_simp+
  from update_missing_record [OF cfg memEnv_client before none falsy memEnv_hook,
      of "JObj [(''name'', JStr ''x'')]" "[]" "[]"]
  show ?thesis by (simp add: c)
qed



















subsection \<open>Unsupported operations\<close>





end
